theory Spec2Isabelle
  imports Complex_Main "HOL-Library.Multiset"
begin

section \<open>Floating-point values\<close>

text \<open>
  The component computes with C++ \<open>float\<close>. The values the component reads (its
  properties, the body's mass, velocity and transform, the wave heights, gravity) are
  modelled as finite numbers of type \<open>real\<close>. In the point loop and in the velocity clamp
  sums, differences, products and square roots are exact: there the theorems below state
  what is computed, operation by operation, and assert nothing that holds by an algebraic
  law of the reals only. The damping update of lines 153 and 154 is different: the
  specification writes its formula in another order than the code, and the two orders
  differ by rounding, so the update is modelled in single precision (\<open>fl32\<close>).

  A quotient whose divisor can be zero is different as well: IEEE 754 gives it an
  infinity or a NaN, where HOL's \<open>x / 0\<close> is \<open>0\<close>. Such quotients, and everything
  computed from them, have type \<open>xreal\<close>: a finite number, one of the two infinities, or
  NaN, with the IEEE rules for each operation. Zero is unsigned: a zero divisor is
  \<open>+0\<close>, which is what \<open>InitializeComponent\<close> leaves in \<open>TestPointRadius\<close> (its \<open>abs\<close>
  clears the sign); a radius set to \<open>-0.0f\<close> afterwards is not represented.
\<close>

datatype xreal = Fin real | PInf | MInf | NaN

fun xadd :: "xreal \<Rightarrow> xreal \<Rightarrow> xreal" where
  "xadd NaN _ = NaN"
| "xadd _ NaN = NaN"
| "xadd (Fin a) (Fin b) = Fin (a + b)"
| "xadd (Fin _) PInf = PInf"
| "xadd (Fin _) MInf = MInf"
| "xadd PInf (Fin _) = PInf"
| "xadd MInf (Fin _) = MInf"
| "xadd PInf PInf = PInf"
| "xadd MInf MInf = MInf"
| "xadd PInf MInf = NaN"
| "xadd MInf PInf = NaN"

fun xneg :: "xreal \<Rightarrow> xreal" where
  "xneg (Fin a) = Fin (- a)"
| "xneg PInf = MInf"
| "xneg MInf = PInf"
| "xneg NaN = NaN"

definition inf_of_sign :: "real \<Rightarrow> xreal" where
  \<comment> \<open>The infinity with the sign of \<open>a\<close>; \<open>0 * inf\<close> and \<open>0 / 0\<close> are NaN.\<close>
  "inf_of_sign a = (if 0 < a then PInf else if a < 0 then MInf else NaN)"

fun xmul :: "xreal \<Rightarrow> xreal \<Rightarrow> xreal" where
  "xmul NaN _ = NaN"
| "xmul _ NaN = NaN"
| "xmul (Fin a) (Fin b) = Fin (a * b)"
| "xmul (Fin a) PInf = inf_of_sign a"
| "xmul (Fin a) MInf = inf_of_sign (- a)"
| "xmul PInf (Fin b) = inf_of_sign b"
| "xmul MInf (Fin b) = inf_of_sign (- b)"
| "xmul PInf PInf = PInf"
| "xmul MInf MInf = PInf"
| "xmul PInf MInf = MInf"
| "xmul MInf PInf = MInf"

fun xdiv :: "xreal \<Rightarrow> xreal \<Rightarrow> xreal" where
  "xdiv NaN _ = NaN"
| "xdiv _ NaN = NaN"
| "xdiv (Fin a) (Fin b) = (if b \<noteq> 0 then Fin (a / b) else inf_of_sign a)"
| "xdiv (Fin _) PInf = Fin 0"
| "xdiv (Fin _) MInf = Fin 0"
| "xdiv PInf (Fin b) = (if 0 \<le> b then PInf else MInf)"
| "xdiv MInf (Fin b) = (if 0 \<le> b then MInf else PInf)"
| "xdiv PInf PInf = NaN"
| "xdiv MInf MInf = NaN"
| "xdiv PInf MInf = NaN"
| "xdiv MInf PInf = NaN"

fun xless :: "xreal \<Rightarrow> xreal \<Rightarrow> bool" where
  "xless NaN _ = False"
| "xless _ NaN = False"
| "xless (Fin a) (Fin b) = (a < b)"
| "xless (Fin _) PInf = True"
| "xless (Fin _) MInf = False"
| "xless PInf _ = False"
| "xless MInf (Fin _) = True"
| "xless MInf PInf = True"
| "xless MInf MInf = False"

definition Clamp :: "xreal \<Rightarrow> real \<Rightarrow> real \<Rightarrow> real" where
  \<comment> \<open>\<open>FMath::Clamp(X, Min, Max) = X<Min ? Min : X<Max ? X : Max\<close>. Every comparison with
      a NaN is false, so a NaN is clamped to \<open>Max\<close>; the middle branch is only reached by a
      finite \<open>X\<close>, hence the result is always finite.\<close>
  "Clamp x MinV MaxV =
     (if xless x (Fin MinV) then MinV
      else if xless x (Fin MaxV) then (case x of Fin v \<Rightarrow> v | _ \<Rightarrow> MaxV)
      else MaxV)"

definition Sign :: "real \<Rightarrow> real" where
  \<comment> \<open>\<open>FMath::Sign(A) = (A > 0) ? 1 : ((A < 0) ? -1 : 0)\<close>\<close>
  "Sign a = (if a > 0 then 1 else if a < 0 then - 1 else 0)"

subsection \<open>Single precision\<close>

text \<open>
  \<open>fl32 x\<close> is the binary32 number nearest to \<open>x\<close>, ties to even: with \<open>e\<close> the binary
  exponent of \<open>x\<close>, the multiple of \<open>2 ^ (e - 23)\<close> nearest to \<open>x\<close> (a significand of 24
  bits). The exponent range is not bounded: overflow and subnormal numbers are not
  modelled. An operation on two floats is the exact operation followed by \<open>fl32\<close>.
\<close>

definition round_half_even :: "real \<Rightarrow> int" where
  "round_half_even y =
     (let f = \<lfloor>y\<rfloor> in
      if y - of_int f < 1 / 2 then f
      else if 1 / 2 < y - of_int f then f + 1
      else if even f then f else f + 1)"

definition fl32 :: "real \<Rightarrow> real" where
  "fl32 x =
     (if x = 0 then 0
      else (let e = \<lfloor>log 2 \<bar>x\<bar>\<rfloor>; u = 2 powr (of_int e - 23)
            in of_int (round_half_even (x / u)) * u))"

definition is_float32 :: "real \<Rightarrow> bool" where
  "is_float32 x = (fl32 x = x)"

definition fadd32 :: "real \<Rightarrow> real \<Rightarrow> real" where
  "fadd32 a b = fl32 (a + b)"

definition fmul32 :: "real \<Rightarrow> real \<Rightarrow> real" where
  "fmul32 a b = fl32 (a * b)"

definition fdiv32 :: "real \<Rightarrow> real \<Rightarrow> real" where
  \<comment> \<open>for a divisor that is not zero\<close>
  "fdiv32 a b = fl32 (a / b)"

section \<open>Vectors and transforms\<close>

record 'a FVector =
  X :: 'a
  Y :: 'a
  Z :: 'a

definition ZeroVector :: "real FVector" where
  "ZeroVector = \<lparr>X = 0, Y = 0, Z = 0\<rparr>"

definition vneg :: "real FVector \<Rightarrow> real FVector" where
  \<comment> \<open>unary \<open>-V\<close>\<close>
  "vneg v = \<lparr>X = - X v, Y = - Y v, Z = - Z v\<rparr>"

definition vmul :: "real FVector \<Rightarrow> real FVector \<Rightarrow> real FVector" where
  \<comment> \<open>\<open>V * W\<close> on two vectors: the component-wise product\<close>
  "vmul v u = \<lparr>X = X v * X u, Y = Y v * Y u, Z = Z v * Z u\<rparr>"

definition vscale :: "real FVector \<Rightarrow> real \<Rightarrow> real FVector" where
  \<comment> \<open>\<open>V * Scale\<close>\<close>
  "vscale v k = \<lparr>X = X v * k, Y = Y v * k, Z = Z v * k\<rparr>"

definition vadd :: "real FVector \<Rightarrow> real FVector \<Rightarrow> real FVector" where
  "vadd v u = \<lparr>X = X v + X u, Y = Y v + Y u, Z = Z v + Z u\<rparr>"

definition SizeSquared :: "real FVector \<Rightarrow> real" where
  "SizeSquared v = X v * X v + Y v * Y v + Z v * Z v"

definition Size :: "real FVector \<Rightarrow> real" where
  \<comment> \<open>\<open>FVector::Size()\<close>\<close>
  "Size v = sqrt (SizeSquared v)"

definition SMALL_NUMBER :: real where
  "SMALL_NUMBER = 1 / 10 ^ 8"

definition GetSafeNormal :: "real FVector \<Rightarrow> real FVector" where
  \<comment> \<open>\<open>FVector::GetSafeNormal(Tolerance = SMALL_NUMBER)\<close> of the engine: the vector itself
      when its squared length is 1, the zero vector below the tolerance, otherwise the
      vector scaled by the inverse square root of its squared length.\<close>
  "GetSafeNormal v =
     (let SquareSum = SizeSquared v in
      if SquareSum = 1 then v
      else if SquareSum < SMALL_NUMBER then ZeroVector
      else vscale v (1 / sqrt SquareSum))"

record FTransform =
  RotScale :: "real FVector \<Rightarrow> real FVector"
  Translation :: "real FVector"

definition TransformPosition :: "FTransform \<Rightarrow> real FVector \<Rightarrow> real FVector" where
  \<comment> \<open>\<open>FTransform::TransformPosition\<close>: rotate and scale, then translate. The rotation
      and scale are kept abstract.\<close>
  "TransformPosition t p = vadd (RotScale t p) (Translation t)"

section \<open>The physics body and the world\<close>

text \<open>
  \<open>UpdatedComponent\<close> and \<open>UpdatedPrimitive\<close> are the same object, seen as a scene
  component and as a primitive component; both are assumed non-null. The forces added
  with \<open>AddForceAtLocation\<close> are kept as the list of (force, world location) pairs in
  the order of the calls; integrating them is the engine's work at its next physics step.
  \<open>SetWorldLocation\<close> is called with \<open>bSweep = true\<close>; the model stores the requested
  location (a sweep that a collision stops short is the engine's business).
\<close>

record UPrimitiveComponent =
  ComponentToWorld :: FTransform
  SimulatingPhysics :: bool
  Mass :: real
  LinearDamping :: real
  AngularDamping :: real
  PhysicsLinearVelocity :: "real FVector"
  BodyInstanceValid :: bool
  UnrealWorldVelocityAtPoint :: "real FVector \<Rightarrow> real FVector"
  Forces :: "(xreal FVector \<times> real FVector) list"

definition GetComponentLocation :: "UPrimitiveComponent \<Rightarrow> real FVector" where
  "GetComponentLocation p = Translation (ComponentToWorld p)"

definition SetWorldLocation :: "real FVector \<Rightarrow> UPrimitiveComponent \<Rightarrow> UPrimitiveComponent" where
  "SetWorldLocation loc p = p\<lparr>ComponentToWorld := (ComponentToWorld p)\<lparr>Translation := loc\<rparr>\<rparr>"

definition AddForceAtLocation ::
  "xreal FVector \<Rightarrow> real FVector \<Rightarrow> UPrimitiveComponent \<Rightarrow> UPrimitiveComponent" where
  "AddForceAtLocation f loc p = p\<lparr>Forces := Forces p @ [(f, loc)]\<rparr>"

definition GetVelocityAtPoint :: "UPrimitiveComponent \<Rightarrow> real FVector \<Rightarrow> real FVector" where
  \<comment> \<open>\<open>UBuoyancyComponent::GetVelocityAtPoint\<close> with the default bone name\<close>
  "GetVelocityAtPoint Target Point =
     (if BodyInstanceValid Target then UnrealWorldVelocityAtPoint Target Point
      else ZeroVector)"

datatype ELinearConstraintMotion = LCM_Free | LCM_Limited | LCM_Locked

datatype EAngularConstraintMotion = ACM_Free | ACM_Limited | ACM_Locked

record FConstraintInstance =
  LinearXMotion :: ELinearConstraintMotion
  LinearYMotion :: ELinearConstraintMotion
  LinearZMotion :: ELinearConstraintMotion
  LinearLimitSize :: real
  AngularSwing1Motion :: EAngularConstraintMotion
  AngularSwing2Motion :: EAngularConstraintMotion
  AngularTwistMotion :: EAngularConstraintMotion
  bSwingLimitSoft :: bool
  bTwistLimitSoft :: bool
  Swing1LimitAngle :: real
  Swing2LimitAngle :: real
  TwistLimitAngle :: real
  SwingLimitStiffness :: real
  SwingLimitDamping :: real
  TwistLimitStiffness :: real
  TwistLimitDamping :: real

text \<open>
  The component's properties, in the order of the header, and its three private fields
  (\<open>_SignedRadius\<close>, \<open>_baseAngularDamping\<close>, \<open>_baseLinearDamping\<close>, written without the
  leading underscore). \<open>OceanManager\<close> is the pointer to the wave-field provider:
  \<open>None\<close> is the null pointer, \<open>Some h\<close> a manager whose \<open>GetWaveHeightValue\<close> is \<open>h\<close>.
\<close>

record UBuoyancyComponent =
  OceanManager :: "(real FVector \<Rightarrow> real FVector) option"
  MeshDensity :: real
  FluidDensity :: real
  FluidLinearDamping :: real
  FluidAngularDamping :: real
  VelocityDamper :: "real FVector"
  ClampMaxVelocity :: bool
  MaxUnderwaterVelocity :: real
  TestPointRadius :: real
  TestPoints :: "real FVector list"
  PointDensityOverride :: "real list"
  DrawDebugPoints :: bool
  EnableStayUprightConstraint :: bool
  StayUprightStiffness :: real
  StayUprightDamping :: real
  SignedRadius :: real
  baseAngularDamping :: real
  baseLinearDamping :: real

text \<open>
  The world as the component sees it: the component itself, the body it moves, the
  gravity \<open>GetGravityZ()\<close> returns, the ocean managers an actor iteration finds, the
  constraint components spawned so far (with their world location) and the debug spheres
  drawn so far (centre, radius, and whether the underwater colour was used).
\<close>

record World =
  Comp :: UBuoyancyComponent
  UpdatedPrimitive :: UPrimitiveComponent
  GravityZ :: real
  OceanManagers :: "(real FVector \<Rightarrow> real FVector) list"
  ConstraintComps :: "(real FVector \<times> FConstraintInstance) list"
  DebugSpheres :: "(real FVector \<times> real \<times> bool) list"

section \<open>The component\<close>

definition Constructor :: "UBuoyancyComponent \<Rightarrow> UBuoyancyComponent" where
  "Constructor c =
     c\<lparr>MeshDensity := 600, FluidDensity := 1025, TestPointRadius := 10,
       FluidLinearDamping := 1, FluidAngularDamping := 1,
       VelocityDamper := \<lparr>X = 1 / 10, Y = 1 / 10, Z = 1 / 10\<rparr>,
       MaxUnderwaterVelocity := 1000,
       StayUprightStiffness := 50, StayUprightDamping := 5\<rparr>"

definition StayUprightConstraint :: "UBuoyancyComponent \<Rightarrow> FConstraintInstance" where
  "StayUprightConstraint c =
     \<lparr>LinearXMotion = LCM_Free, LinearYMotion = LCM_Free, LinearZMotion = LCM_Free,
      LinearLimitSize = 0,
      AngularSwing1Motion = ACM_Limited, AngularSwing2Motion = ACM_Limited,
      AngularTwistMotion = ACM_Limited,
      bSwingLimitSoft = True, bTwistLimitSoft = True,
      Swing1LimitAngle = 0, Swing2LimitAngle = 0, TwistLimitAngle = 0,
      SwingLimitStiffness = StayUprightStiffness c,
      SwingLimitDamping = StayUprightDamping c,
      TwistLimitStiffness = StayUprightStiffness c,
      TwistLimitDamping = StayUprightDamping c\<rparr>"

definition InitializeComponent :: "World \<Rightarrow> World" where
  \<comment> \<open>Lines 22 to 84. \<open>abs\<close> is the absolute value of a \<open>float\<close>; the first ocean manager an
      actor iteration finds is bound when none is assigned; the constraint component is
      recorded with its world location and its settings.\<close>
  "InitializeComponent w =
     (let w1 = (if OceanManager (Comp w) = None
                then (case OceanManagers w of
                        [] \<Rightarrow> w
                      | m # _ \<Rightarrow> w\<lparr>Comp := (Comp w)\<lparr>OceanManager := Some m\<rparr>\<rparr>)
                else w);
          w2 = (if EnableStayUprightConstraint (Comp w1)
                then w1\<lparr>ConstraintComps := ConstraintComps w1 @
                          [(GetComponentLocation (UpdatedPrimitive w1),
                            StayUprightConstraint (Comp w1))]\<rparr>
                else w1);
          c3 = (Comp w2)\<lparr>TestPointRadius := \<bar>TestPointRadius (Comp w2)\<bar>\<rparr>;
          c4 = c3\<lparr>SignedRadius := Sign (GravityZ w2) * TestPointRadius c3\<rparr>;
          c5 = c4\<lparr>baseLinearDamping := LinearDamping (UpdatedPrimitive w2)\<rparr>;
          c6 = c5\<lparr>baseAngularDamping := AngularDamping (UpdatedPrimitive w2)\<rparr>
      in w2\<lparr>Comp := c6\<rparr>)"

subsection \<open>The body of the point loop\<close>

definition DepthMultiplier :: "real \<Rightarrow> real \<Rightarrow> real \<Rightarrow> real \<Rightarrow> real" where
  \<comment> \<open>Lines 116 and 117: the quotient, then the clamp to \<open>[0, 1]\<close>.\<close>
  "DepthMultiplier waveHeight worldZ signedRadius testPointRadius =
     Clamp (xdiv (Fin (waveHeight - (worldZ + signedRadius))) (Fin (testPointRadius * 2))) 0 1"

definition PointDensity :: "UBuoyancyComponent \<Rightarrow> nat \<Rightarrow> real" where
  \<comment> \<open>\<open>IsValidIndex(i)\<close> is \<open>0 <= i < Num()\<close>; the loop index is never negative.\<close>
  "PointDensity c pointIndex =
     (if pointIndex < length (PointDensityOverride c) then PointDensityOverride c ! pointIndex
      else MeshDensity c)"

definition BuoyancyForceZ :: "real \<Rightarrow> real \<Rightarrow> real \<Rightarrow> real \<Rightarrow> real \<Rightarrow> real \<Rightarrow> xreal" where
  \<comment> \<open>\<open>GetMass() / PointDensity * FluidDensity * -GetGravityZ() / TotalPoints * DepthMultiplier\<close>,
      left to right\<close>
  "BuoyancyForceZ mass pointDensity fluidDensity gravityZ TotalPoints depthMultiplier =
     xmul (xdiv (xmul (xmul (xdiv (Fin mass) (Fin pointDensity)) (Fin fluidDensity))
                      (Fin (- gravityZ)))
                (Fin TotalPoints))
          (Fin depthMultiplier)"

definition DampingForce :: "real FVector \<Rightarrow> real FVector \<Rightarrow> real \<Rightarrow> real \<Rightarrow> real FVector" where
  \<comment> \<open>\<open>-GetVelocityAtPoint(..) * VelocityDamper * GetMass() * DepthMultiplier\<close>\<close>
  "DampingForce velocity damper mass depthMultiplier =
     vscale (vscale (vmul (vneg velocity) damper) mass) depthMultiplier"

definition TickPoint ::
  "(real FVector \<Rightarrow> real FVector) \<Rightarrow> FTransform \<Rightarrow> real \<Rightarrow> nat \<Rightarrow> int \<times> World \<Rightarrow> int \<times> World" where
  \<comment> \<open>One iteration of the loop at lines 103 to 142, on the counter \<open>PointsUnderWater\<close>
      and the world.\<close>
  "TickPoint GetWaveHeightValue transform TotalPoints pointIndex st =
     (let PointsUnderWater = fst st;
          w = snd st;
          c = Comp w;
          testPoint = TestPoints c ! pointIndex;
          worldTestPoint = TransformPosition transform testPoint;
          waveHeight = Z (GetWaveHeightValue worldTestPoint);
          isUnderwater = (waveHeight > Z worldTestPoint + SignedRadius c);
          st1 =
            (if isUnderwater then
               (let depthMultiplier =
                      DepthMultiplier waveHeight (Z worldTestPoint) (SignedRadius c)
                        (TestPointRadius c);
                    pointDensity = PointDensity c pointIndex;
                    buoyancyForceZ =
                      BuoyancyForceZ (Mass (UpdatedPrimitive w)) pointDensity (FluidDensity c)
                        (GravityZ w) TotalPoints depthMultiplier;
                    dampingForce =
                      DampingForce (GetVelocityAtPoint (UpdatedPrimitive w) worldTestPoint)
                        (VelocityDamper c) (Mass (UpdatedPrimitive w)) depthMultiplier
                in (PointsUnderWater + 1,
                    w\<lparr>UpdatedPrimitive :=
                        AddForceAtLocation
                          \<lparr>X = Fin (X dampingForce), Y = Fin (Y dampingForce),
                           Z = xadd (Fin (Z dampingForce)) buoyancyForceZ\<rparr>
                          worldTestPoint (UpdatedPrimitive w)\<rparr>))
             else (PointsUnderWater, w))
      in if DrawDebugPoints c
         then (fst st1,
               (snd st1)\<lparr>DebugSpheres := DebugSpheres (snd st1) @
                           [(worldTestPoint, TestPointRadius c, isUnderwater)]\<rparr>)
         else st1)"

subsection \<open>The tick\<close>

definition ClampVelocity :: "UBuoyancyComponent \<Rightarrow> int \<Rightarrow> UPrimitiveComponent \<Rightarrow> UPrimitiveComponent" where
  \<comment> \<open>Lines 145 to 150.\<close>
  "ClampVelocity c PointsUnderWater p =
     (if ClampMaxVelocity c \<and> PointsUnderWater > 0
         \<and> Size (PhysicsLinearVelocity p) > MaxUnderwaterVelocity c
      then p\<lparr>PhysicsLinearVelocity :=
               vscale (GetSafeNormal (PhysicsLinearVelocity p)) (MaxUnderwaterVelocity c)\<rparr>
      else p)"

definition UpdateDamping ::
  "UBuoyancyComponent \<Rightarrow> real \<Rightarrow> int \<Rightarrow> UPrimitiveComponent \<Rightarrow> UPrimitiveComponent" where
  \<comment> \<open>Lines 153 and 154, in single precision and left to right:
      \<open>base + ((Fluid / TotalPoints) * PointsUnderWater)\<close>, rounded after the quotient, the
      product and the sum. \<open>TotalPoints\<close> is at least 1 here; the counter is converted to
      \<open>float\<close> exactly (it is far below \<open>2 ^ 24\<close>).\<close>
  "UpdateDamping c TotalPoints PointsUnderWater p =
     p\<lparr>LinearDamping :=
         fadd32 (baseLinearDamping c)
           (fmul32 (fdiv32 (FluidLinearDamping c) TotalPoints) (real_of_int PointsUnderWater)),
       AngularDamping :=
         fadd32 (baseAngularDamping c)
           (fmul32 (fdiv32 (FluidAngularDamping c) TotalPoints) (real_of_int PointsUnderWater))\<rparr>"

definition TickComponent :: "World \<Rightarrow> World" where
  "TickComponent w =
     (case OceanManager (Comp w) of
        None \<Rightarrow> w
      | Some GetWaveHeightValue \<Rightarrow>
          if \<not> SimulatingPhysics (UpdatedPrimitive w) then
            (let loc = GetComponentLocation (UpdatedPrimitive w);
                 waveHeight = GetWaveHeightValue loc
             in w\<lparr>UpdatedPrimitive :=
                    SetWorldLocation \<lparr>X = X loc, Y = Y loc, Z = Z waveHeight\<rparr>
                      (UpdatedPrimitive w)\<rparr>)
          else
            (let TotalPoints = real (length (TestPoints (Comp w))) in
             if TotalPoints < 1 then w
             else
               (let transform = ComponentToWorld (UpdatedPrimitive w);
                    st = fold (TickPoint GetWaveHeightValue transform TotalPoints)
                           [0..<length (TestPoints (Comp w))] (0, w);
                    PointsUnderWater = fst st;
                    w1 = snd st;
                    p2 = ClampVelocity (Comp w1) PointsUnderWater (UpdatedPrimitive w1);
                    p3 = UpdateDamping (Comp w1) TotalPoints PointsUnderWater p2
                in w1\<lparr>UpdatedPrimitive := p3\<rparr>)))"

section \<open>The specification's per-point quantities\<close>

text \<open>
  The quantities the specification names for test point \<open>i\<close>, written from its words and
  not from the loop: the world point \<open>w_i\<close>, the sampled height \<open>h_i\<close>, the submersion
  test, \<open>depthFraction\<close>, \<open>density_i\<close>, \<open>buoyantForceZ\<close>, \<open>dampingForce\<close> and the
  combined force. The theorems below compare the loop with them. \<open>h\<close> is the
  wave-field provider's \<open>sampleSurface\<close>.
\<close>

definition spec_w :: "World \<Rightarrow> nat \<Rightarrow> real FVector" where
  "spec_w w i =
     TransformPosition (ComponentToWorld (UpdatedPrimitive w)) (TestPoints (Comp w) ! i)"

definition spec_h :: "(real FVector \<Rightarrow> real FVector) \<Rightarrow> World \<Rightarrow> nat \<Rightarrow> real" where
  "spec_h h w i = Z (h (spec_w w i))"

definition spec_underwater :: "(real FVector \<Rightarrow> real FVector) \<Rightarrow> World \<Rightarrow> nat \<Rightarrow> bool" where
  "spec_underwater h w i = (spec_h h w i > Z (spec_w w i) + SignedRadius (Comp w))"

definition spec_depthFraction :: "(real FVector \<Rightarrow> real FVector) \<Rightarrow> World \<Rightarrow> nat \<Rightarrow> real" where
  "spec_depthFraction h w i =
     Clamp (xdiv (Fin (spec_h h w i - (Z (spec_w w i) + SignedRadius (Comp w))))
                 (Fin (2 * TestPointRadius (Comp w)))) 0 1"

definition spec_density :: "World \<Rightarrow> nat \<Rightarrow> real" where
  "spec_density w i =
     (if i < length (PointDensityOverride (Comp w)) then PointDensityOverride (Comp w) ! i
      else MeshDensity (Comp w))"

definition spec_totalPoints :: "World \<Rightarrow> real" where
  "spec_totalPoints w = real (length (TestPoints (Comp w)))"

definition spec_buoyantForceZ :: "(real FVector \<Rightarrow> real FVector) \<Rightarrow> World \<Rightarrow> nat \<Rightarrow> xreal" where
  "spec_buoyantForceZ h w i =
     xmul (xdiv (xmul (xmul (xdiv (Fin (Mass (UpdatedPrimitive w))) (Fin (spec_density w i)))
                            (Fin (FluidDensity (Comp w))))
                      (Fin (- GravityZ w)))
                (Fin (spec_totalPoints w)))
          (Fin (spec_depthFraction h w i))"

definition spec_dampingForce :: "(real FVector \<Rightarrow> real FVector) \<Rightarrow> World \<Rightarrow> nat \<Rightarrow> real FVector" where
  "spec_dampingForce h w i =
     vscale (vscale (vmul (vneg (GetVelocityAtPoint (UpdatedPrimitive w) (spec_w w i)))
                          (VelocityDamper (Comp w)))
                    (Mass (UpdatedPrimitive w)))
            (spec_depthFraction h w i)"

definition spec_force :: "(real FVector \<Rightarrow> real FVector) \<Rightarrow> World \<Rightarrow> nat \<Rightarrow> xreal FVector" where
  "spec_force h w i =
     \<lparr>X = Fin (X (spec_dampingForce h w i)),
      Y = Fin (Y (spec_dampingForce h w i)),
      Z = xadd (Fin (Z (spec_dampingForce h w i))) (spec_buoyantForceZ h w i)\<rparr>"

definition full_force :: "World \<Rightarrow> nat \<Rightarrow> xreal FVector" where
  \<comment> \<open>the force lines 127 to 133 give point \<open>i\<close> when its \<open>DepthMultiplier\<close> is 1\<close>
  "full_force w i =
     (let d = DampingForce (GetVelocityAtPoint (UpdatedPrimitive w) (spec_w w i))
                (VelocityDamper (Comp w)) (Mass (UpdatedPrimitive w)) 1;
          bz = BuoyancyForceZ (Mass (UpdatedPrimitive w)) (PointDensity (Comp w) i)
                 (FluidDensity (Comp w)) (GravityZ w) (real (length (TestPoints (Comp w)))) 1
      in \<lparr>X = Fin (X d), Y = Fin (Y d), Z = xadd (Fin (Z d)) bz\<rparr>)"

definition spec_submerged :: "(real FVector \<Rightarrow> real FVector) \<Rightarrow> World \<Rightarrow> nat list" where
  \<comment> \<open>the indices of the submerged test points, in the order of \<open>testPoints\<close>\<close>
  "spec_submerged h w = filter (spec_underwater h w) [0..<length (TestPoints (Comp w))]"

definition spec_submergedCount :: "(real FVector \<Rightarrow> real FVector) \<Rightarrow> World \<Rightarrow> nat" where
  "spec_submergedCount h w = length (spec_submerged h w)"

definition loop_result :: "(real FVector \<Rightarrow> real FVector) \<Rightarrow> World \<Rightarrow> nat list \<Rightarrow> World" where
  \<comment> \<open>The world after the loop has visited the indices \<open>js\<close>, in closed form.\<close>
  "loop_result h w js =
     w\<lparr>UpdatedPrimitive := (UpdatedPrimitive w)\<lparr>Forces := Forces (UpdatedPrimitive w) @
           map (\<lambda>i. (spec_force h w i, spec_w w i)) (filter (spec_underwater h w) js)\<rparr>,
       DebugSpheres := DebugSpheres w @
           (if DrawDebugPoints (Comp w)
            then map (\<lambda>i. (spec_w w i, TestPointRadius (Comp w), spec_underwater h w i)) js
            else [])\<rparr>"

definition tick_result :: "(real FVector \<Rightarrow> real FVector) \<Rightarrow> World \<Rightarrow> World" where
  \<comment> \<open>The world after a tick of a simulating body with at least one test point, in
      closed form.\<close>
  "tick_result h w =
     (let w1 = loop_result h w [0..<length (TestPoints (Comp w))];
          k = int (spec_submergedCount h w)
      in w1\<lparr>UpdatedPrimitive :=
             UpdateDamping (Comp w) (spec_totalPoints w) k
               (ClampVelocity (Comp w) k (UpdatedPrimitive w1))\<rparr>)"

section \<open>Example worlds\<close>

text \<open>
  A body of mass 600 at the origin, not rotated, moving with velocity \<open>(3, 4, 0)\<close>, on a
  flat sea at height 0 under gravity \<open>-10\<close>. Two test points of radius 1: the first at
  the origin (half submerged, with a density override of 300), the second 10 above it
  (dry).
\<close>

definition flat_sea :: "real \<Rightarrow> real FVector \<Rightarrow> real FVector" where
  "flat_sea level p = \<lparr>X = X p, Y = Y p, Z = level\<rparr>"

definition ex_comp :: UBuoyancyComponent where
  "ex_comp =
     \<lparr>OceanManager = Some (flat_sea 0), MeshDensity = 600, FluidDensity = 1000,
      FluidLinearDamping = 1, FluidAngularDamping = 2,
      VelocityDamper = \<lparr>X = 1 / 10, Y = 1 / 10, Z = 1 / 10\<rparr>,
      ClampMaxVelocity = True, MaxUnderwaterVelocity = 1, TestPointRadius = 1,
      TestPoints = [\<lparr>X = 0, Y = 0, Z = 0\<rparr>, \<lparr>X = 0, Y = 0, Z = 10\<rparr>],
      PointDensityOverride = [300], DrawDebugPoints = True,
      EnableStayUprightConstraint = True, StayUprightStiffness = 50, StayUprightDamping = 5,
      SignedRadius = - 1, baseAngularDamping = 1 / 2, baseLinearDamping = 1 / 4\<rparr>"

definition ex_body :: UPrimitiveComponent where
  "ex_body =
     \<lparr>ComponentToWorld = \<lparr>RotScale = (\<lambda>p. p), Translation = \<lparr>X = 0, Y = 0, Z = 0\<rparr>\<rparr>,
      SimulatingPhysics = True, Mass = 600, LinearDamping = 7, AngularDamping = 9,
      PhysicsLinearVelocity = \<lparr>X = 3, Y = 4, Z = 0\<rparr>, BodyInstanceValid = True,
      UnrealWorldVelocityAtPoint = (\<lambda>p. \<lparr>X = 3, Y = 4, Z = 0\<rparr>), Forces = []\<rparr>"

definition ex_world :: World where
  "ex_world =
     \<lparr>Comp = ex_comp, UpdatedPrimitive = ex_body, GravityZ = - 10,
      OceanManagers = [flat_sea 0], ConstraintComps = [], DebugSpheres = []\<rparr>"

definition ex_kinematic :: World where
  \<comment> \<open>the same body at \<open>(2, 3, 1)\<close>, not simulating, on a flat sea at height 5\<close>
  "ex_kinematic =
     ex_world\<lparr>Comp := ex_comp\<lparr>OceanManager := Some (flat_sea 5)\<rparr>,
              UpdatedPrimitive := ex_body\<lparr>SimulatingPhysics := False,
                ComponentToWorld := \<lparr>RotScale = (\<lambda>p. p), Translation = \<lparr>X = 2, Y = 3, Z = 1\<rparr>\<rparr>\<rparr>\<rparr>"

definition ex_zero_radius :: World where
  \<comment> \<open>test points of radius 0 on a flat sea at height 2: both the point at height 0 and
      the signed radius 0\<close>
  "ex_zero_radius =
     ex_world\<lparr>Comp := ex_comp\<lparr>OceanManager := Some (flat_sea 2), TestPointRadius := 0,
                                SignedRadius := 0\<rparr>\<rparr>"

definition ex_sea :: "real \<Rightarrow> World" where
  \<comment> \<open>the example world on a flat sea at another height\<close>
  "ex_sea level = ex_world\<lparr>Comp := ex_comp\<lparr>OceanManager := Some (flat_sea level)\<rparr>\<rparr>"

definition ex_boundary :: World where
  \<comment> \<open>a single test point of radius 1 whose lower end just touches the flat sea at 0\<close>
  "ex_boundary = ex_world\<lparr>Comp := ex_comp\<lparr>TestPoints := [\<lparr>X = 0, Y = 0, Z = 1\<rparr>]\<rparr>\<rparr>"

definition ex_moving :: "real FVector \<Rightarrow> real \<Rightarrow> World" where
  \<comment> \<open>the example world with another velocity of the body and another
      \<open>MaxUnderwaterVelocity\<close>\<close>
  "ex_moving v m =
     ex_world\<lparr>Comp := ex_comp\<lparr>MaxUnderwaterVelocity := m\<rparr>,
              UpdatedPrimitive := ex_body\<lparr>PhysicsLinearVelocity := v\<rparr>\<rparr>"

definition ex_41 :: World where
  \<comment> \<open>41 test points at the origin, all submerged; base damping 0, fluid damping 1\<close>
  "ex_41 =
     ex_world\<lparr>Comp := ex_comp\<lparr>TestPoints := replicate 41 \<lparr>X = 0, Y = 0, Z = 0\<rparr>,
                                PointDensityOverride := [], baseLinearDamping := 0\<rparr>\<rparr>"

definition ex_unclamped :: World where
  \<comment> \<open>the example world with \<open>ClampMaxVelocity\<close> off\<close>
  "ex_unclamped = ex_world\<lparr>Comp := ex_comp\<lparr>ClampMaxVelocity := False\<rparr>\<rparr>"

section \<open>The aggregate of the forces\<close>

text \<open>
  What the physics engine accumulates from the forces added in a tick: their sum, and
  the sum of their torques about a reference point \<open>c\<close> (the torque of a force \<open>f\<close>
  applied at \<open>p\<close> is the cross product of \<open>p - c\<close> with \<open>f\<close>). The accumulation is the
  engine's; it is written here as the plain sum, in the order of the calls.
\<close>

definition xvadd :: "xreal FVector \<Rightarrow> xreal FVector \<Rightarrow> xreal FVector" where
  "xvadd a b = \<lparr>X = xadd (X a) (X b), Y = xadd (Y a) (Y b), Z = xadd (Z a) (Z b)\<rparr>"

definition xvzero :: "xreal FVector" where
  "xvzero = \<lparr>X = Fin 0, Y = Fin 0, Z = Fin 0\<rparr>"

definition Torque :: "real FVector \<Rightarrow> xreal FVector \<times> real FVector \<Rightarrow> xreal FVector" where
  "Torque c fp =
     (let f = fst fp; p = snd fp;
          rx = Fin (X p - X c); ry = Fin (Y p - Y c); rz = Fin (Z p - Z c)
      in \<lparr>X = xadd (xmul ry (Z f)) (xneg (xmul rz (Y f))),
          Y = xadd (xmul rz (X f)) (xneg (xmul rx (Z f))),
          Z = xadd (xmul rx (Y f)) (xneg (xmul ry (X f)))\<rparr>)"

definition TotalForce :: "(xreal FVector \<times> real FVector) list \<Rightarrow> xreal FVector" where
  "TotalForce fs = fold (\<lambda>fp acc. xvadd acc (fst fp)) fs xvzero"

definition TotalTorque :: "real FVector \<Rightarrow> (xreal FVector \<times> real FVector) list \<Rightarrow> xreal FVector" where
  "TotalTorque c fs = fold (\<lambda>fp acc. xvadd acc (Torque c fp)) fs xvzero"

text \<open>
  The submersion test and the force of a test point given together with its density:
  what the loop computes for index \<open>i\<close> depends on the index only through the point
  \<open>TestPoints[i]\<close> and its density (the override at \<open>i\<close>, or the mesh density).
\<close>

definition point_densities :: "World \<Rightarrow> (real FVector \<times> real) list" where
  "point_densities w =
     zip (TestPoints (Comp w)) (map (spec_density w) [0..<length (TestPoints (Comp w))])"

definition pair_underwater ::
  "(real FVector \<Rightarrow> real FVector) \<Rightarrow> World \<Rightarrow> real FVector \<times> real \<Rightarrow> bool" where
  "pair_underwater h w pd =
     (let wp = TransformPosition (ComponentToWorld (UpdatedPrimitive w)) (fst pd)
      in Z (h wp) > Z wp + SignedRadius (Comp w))"

definition pair_force ::
  "(real FVector \<Rightarrow> real FVector) \<Rightarrow> World \<Rightarrow> real \<Rightarrow> real FVector \<times> real
     \<Rightarrow> xreal FVector \<times> real FVector" where
  "pair_force h w n pd =
     (let wp = TransformPosition (ComponentToWorld (UpdatedPrimitive w)) (fst pd);
          dm = DepthMultiplier (Z (h wp)) (Z wp) (SignedRadius (Comp w)) (TestPointRadius (Comp w));
          bz = BuoyancyForceZ (Mass (UpdatedPrimitive w)) (snd pd) (FluidDensity (Comp w))
                 (GravityZ w) n dm;
          d = DampingForce (GetVelocityAtPoint (UpdatedPrimitive w) wp) (VelocityDamper (Comp w))
                (Mass (UpdatedPrimitive w)) dm
      in (\<lparr>X = Fin (X d), Y = Fin (Y d), Z = xadd (Fin (Z d)) bz\<rparr>, wp))"

definition ex_swapped :: World where
  \<comment> \<open>the example world with its two test points in the other order, the density
      overrides left as they are\<close>
  "ex_swapped =
     ex_world\<lparr>Comp := ex_comp\<lparr>TestPoints := [\<lparr>X = 0, Y = 0, Z = 10\<rparr>, \<lparr>X = 0, Y = 0, Z = 0\<rparr>]\<rparr>\<rparr>"

definition ex_swapped_both :: World where
  \<comment> \<open>the example world with its two test points in the other order, each with the
      density it had\<close>
  "ex_swapped_both =
     ex_world\<lparr>Comp := ex_comp\<lparr>TestPoints := [\<lparr>X = 0, Y = 0, Z = 10\<rparr>, \<lparr>X = 0, Y = 0, Z = 0\<rparr>],
                                PointDensityOverride := [600, 300]\<rparr>\<rparr>"

section \<open>The loop in closed form\<close>

lemma spec_frame:
  "spec_w (w\<lparr>UpdatedPrimitive := (UpdatedPrimitive w)\<lparr>Forces := fs\<rparr>, DebugSpheres := ds\<rparr>) = spec_w w"
  "spec_underwater h (w\<lparr>UpdatedPrimitive := (UpdatedPrimitive w)\<lparr>Forces := fs\<rparr>, DebugSpheres := ds\<rparr>) =
     spec_underwater h w"
  "spec_force h (w\<lparr>UpdatedPrimitive := (UpdatedPrimitive w)\<lparr>Forces := fs\<rparr>, DebugSpheres := ds\<rparr>) =
     spec_force h w"
  by (simp_all add: fun_eq_iff spec_w_def spec_h_def spec_underwater_def spec_force_def
      spec_dampingForce_def spec_buoyantForceZ_def spec_depthFraction_def spec_density_def
      spec_totalPoints_def GetVelocityAtPoint_def)

lemma loop_result_frame:
  "spec_w (loop_result h w js) = spec_w w"
  "spec_underwater h (loop_result h w js) = spec_underwater h w"
  "spec_force h (loop_result h w js) = spec_force h w"
  "Comp (loop_result h w js) = Comp w"
  "ComponentToWorld (UpdatedPrimitive (loop_result h w js)) = ComponentToWorld (UpdatedPrimitive w)"
  unfolding loop_result_def by (simp_all add: spec_frame)

lemma loop_result_Nil: "loop_result h w [] = w"
  by (simp add: loop_result_def)

lemma loop_result_Cons: "loop_result h (loop_result h w [i]) js = loop_result h w (i # js)"
  by (simp add: loop_result_def spec_frame)

lemma TickPoint_step:
  "TickPoint h (ComponentToWorld (UpdatedPrimitive w)) (real (length (TestPoints (Comp w)))) i (k, w) =
     (k + (if spec_underwater h w i then 1 else 0), loop_result h w [i])"
  by (simp add: TickPoint_def loop_result_def Let_def spec_w_def spec_h_def spec_underwater_def
      spec_force_def spec_dampingForce_def spec_buoyantForceZ_def spec_depthFraction_def
      spec_density_def spec_totalPoints_def DepthMultiplier_def PointDensity_def
      BuoyancyForceZ_def DampingForce_def AddForceAtLocation_def mult.commute)

lemma TickPoint_fold:
  "T = ComponentToWorld (UpdatedPrimitive w) \<Longrightarrow> n = real (length (TestPoints (Comp w))) \<Longrightarrow>
   fold (TickPoint h T n) js (k, w) =
     (k + int (length (filter (spec_underwater h w) js)), loop_result h w js)"
proof (induction js arbitrary: k w)
  case Nil
  then show ?case by (simp add: loop_result_Nil)
next
  case (Cons i js)
  have step: "TickPoint h T n i (k, w) =
      (k + (if spec_underwater h w i then 1 else 0), loop_result h w [i])"
    using Cons.prems by (simp add: TickPoint_step)
  have "fold (TickPoint h T n) js
          (k + (if spec_underwater h w i then 1 else 0), loop_result h w [i]) =
        (k + (if spec_underwater h w i then 1 else 0)
           + int (length (filter (spec_underwater h (loop_result h w [i])) js)),
         loop_result h (loop_result h w [i]) js)"
    by (rule Cons.IH) (simp_all add: loop_result_frame Cons.prems)
  then show ?case
    by (simp add: step loop_result_frame loop_result_Cons)
qed

lemma TickComponent_simulating:
  assumes "OceanManager (Comp w) = Some h" "SimulatingPhysics (UpdatedPrimitive w)"
    "TestPoints (Comp w) \<noteq> []"
  shows "TickComponent w = tick_result h w"
proof -
  have n: "\<not> real (length (TestPoints (Comp w))) < 1"
    using assms(3) by (cases "TestPoints (Comp w)") simp_all
  show ?thesis
    using assms(1,2) n
    by (simp add: TickComponent_def tick_result_def Let_def TickPoint_fold loop_result_frame
        spec_submergedCount_def spec_submerged_def spec_totalPoints_def)
qed

lemma TickComponent_unbound: "OceanManager (Comp w) = None \<Longrightarrow> TickComponent w = w"
  by (simp add: TickComponent_def)

lemma TickComponent_empty:
  "OceanManager (Comp w) = Some h \<Longrightarrow> SimulatingPhysics (UpdatedPrimitive w) \<Longrightarrow> TestPoints (Comp w) = [] \<Longrightarrow> TickComponent w = w"
  by (simp add: TickComponent_def)

lemma TickComponent_kinematic:
  "OceanManager (Comp w) = Some h \<Longrightarrow> \<not> SimulatingPhysics (UpdatedPrimitive w) \<Longrightarrow>
   TickComponent w = w\<lparr>UpdatedPrimitive := SetWorldLocation
      \<lparr>X = X (GetComponentLocation (UpdatedPrimitive w)), Y = Y (GetComponentLocation (UpdatedPrimitive w)),
       Z = Z (h (GetComponentLocation (UpdatedPrimitive w)))\<rparr> (UpdatedPrimitive w)\<rparr>"
  by (simp add: TickComponent_def Let_def)

lemma Comp_Tick: "Comp (TickComponent w) = Comp w"
proof (cases "OceanManager (Comp w)")
  case None then show ?thesis by (simp add: TickComponent_unbound)
next
  case (Some h)
  show ?thesis
  proof (cases "SimulatingPhysics (UpdatedPrimitive w)")
    case False with Some show ?thesis by (simp add: TickComponent_kinematic)
  next
    case True
    show ?thesis
    proof (cases "TestPoints (Comp w) = []")
      case True with Some \<open>SimulatingPhysics (UpdatedPrimitive w)\<close> show ?thesis by (simp add: TickComponent_empty)
    next
      case False with Some True show ?thesis by (simp add: TickComponent_simulating tick_result_def Let_def loop_result_frame)
    qed
  qed
qed

lemma ClampVelocity_frame:
  "Forces (ClampVelocity c k p) = Forces p"
  "ComponentToWorld (ClampVelocity c k p) = ComponentToWorld p"
  "SimulatingPhysics (ClampVelocity c k p) = SimulatingPhysics p"
  "Mass (ClampVelocity c k p) = Mass p"
  "BodyInstanceValid (ClampVelocity c k p) = BodyInstanceValid p"
  "UnrealWorldVelocityAtPoint (ClampVelocity c k p) = UnrealWorldVelocityAtPoint p"
  by (simp_all add: ClampVelocity_def)

lemma tick_result_fields:
  "Comp (tick_result h w) = Comp w"
  "GravityZ (tick_result h w) = GravityZ w"
  "Forces (UpdatedPrimitive (tick_result h w)) =
     Forces (UpdatedPrimitive w) @ map (\<lambda>i. (spec_force h w i, spec_w w i)) (spec_submerged h w)"
  "ComponentToWorld (UpdatedPrimitive (tick_result h w)) = ComponentToWorld (UpdatedPrimitive w)"
  "SimulatingPhysics (UpdatedPrimitive (tick_result h w)) = SimulatingPhysics (UpdatedPrimitive w)"
  "Mass (UpdatedPrimitive (tick_result h w)) = Mass (UpdatedPrimitive w)"
  "LinearDamping (UpdatedPrimitive (tick_result h w)) =
     fadd32 (baseLinearDamping (Comp w))
       (fmul32 (fdiv32 (FluidLinearDamping (Comp w)) (spec_totalPoints w))
          (real (spec_submergedCount h w)))"
  "AngularDamping (UpdatedPrimitive (tick_result h w)) =
     fadd32 (baseAngularDamping (Comp w))
       (fmul32 (fdiv32 (FluidAngularDamping (Comp w)) (spec_totalPoints w))
          (real (spec_submergedCount h w)))"
  "PhysicsLinearVelocity (UpdatedPrimitive (tick_result h w)) =
     PhysicsLinearVelocity
       (ClampVelocity (Comp w) (int (spec_submergedCount h w)) (UpdatedPrimitive w))"
  by (simp_all add: tick_result_def Let_def loop_result_def UpdateDamping_def ClampVelocity_def
      spec_submerged_def)

lemma ex_points: "spec_w ex_world 0 = \<lparr>X = 0, Y = 0, Z = 0\<rparr>" "spec_w ex_world (Suc 0) = \<lparr>X = 0, Y = 0, Z = 10\<rparr>"
  by (simp_all add: spec_w_def ex_world_def ex_comp_def ex_body_def TransformPosition_def vadd_def)

lemma ex_underwater: "spec_underwater (flat_sea 0) ex_world 0" "\<not> spec_underwater (flat_sea 0) ex_world (Suc 0)"
  by (simp_all add: spec_underwater_def spec_h_def ex_points flat_sea_def) (simp_all add: ex_world_def ex_comp_def)

lemma ex_submerged: "spec_submerged (flat_sea 0) ex_world = [0]"
proof -
  have "length (TestPoints (Comp ex_world)) = Suc (Suc 0)" by (simp add: ex_world_def ex_comp_def)
  then show ?thesis by (simp add: spec_submerged_def ex_underwater)
qed

lemma ex_depth: "spec_depthFraction (flat_sea 0) ex_world 0 = 1 / 2"
  by (simp add: spec_depthFraction_def spec_h_def ex_points flat_sea_def Clamp_def) (simp add: ex_world_def ex_comp_def)

lemma ex_force: "spec_force (flat_sea 0) ex_world 0 = \<lparr>X = Fin (- 90), Y = Fin (- 120), Z = Fin 5000\<rparr>"
  by (simp add: spec_force_def spec_dampingForce_def spec_buoyantForceZ_def ex_depth ex_points spec_density_def spec_totalPoints_def GetVelocityAtPoint_def
      vscale_def vmul_def vneg_def)
     (simp add: ex_world_def ex_comp_def ex_body_def)

section \<open>Single-precision rounding\<close>

lemma fl32_zero: "fl32 0 = 0"
  by (simp add: fl32_def)

lemma floor_log2_eq:
  assumes "2 powr (of_int e) \<le> x" "x < 2 powr (of_int e + 1)"
  shows "\<lfloor>log 2 x\<rfloor> = e"
proof -
  have "0 < 2 powr (real_of_int e)"
    by simp
  then have pos: "0 < x"
    using assms(1) by (rule less_le_trans)
  have "of_int e \<le> log 2 x"
    using assms(1) pos by (simp add: le_log_iff)
  moreover have "log 2 x < of_int e + 1"
    using assms(2) pos by (simp add: log_less_iff)
  ultimately show ?thesis
    by (simp add: floor_eq_iff)
qed

lemma fl32_eval:
  assumes "2 powr (of_int e) \<le> \<bar>x\<bar>" "\<bar>x\<bar> < 2 powr (of_int e + 1)"
  shows "fl32 x = of_int (round_half_even (x / 2 powr (of_int e - 23))) * 2 powr (of_int e - 23)"
proof -
  have "0 < 2 powr (real_of_int e)"
    by simp
  then have "0 < \<bar>x\<bar>"
    using assms(1) by (rule less_le_trans)
  then have "x \<noteq> 0"
    by simp
  moreover have "\<lfloor>log 2 \<bar>x\<bar>\<rfloor> = e"
    using assms by (rule floor_log2_eq)
  ultimately show ?thesis
    by (simp add: fl32_def Let_def)
qed

lemma fl32_quarter: "fl32 (1 / 4) = 1 / 4"
  using fl32_eval [of "- 2" "1 / 4"] by (simp add: round_half_even_def powr_neg_numeral)

lemma fl32_half: "fl32 (1 / 2) = 1 / 2"
  using fl32_eval [of "- 1" "1 / 2"] by (simp add: round_half_even_def powr_neg_numeral)

lemma fl32_three_quarters: "fl32 (3 / 4) = 3 / 4"
  using fl32_eval [of "- 1" "3 / 4"] by (simp add: round_half_even_def powr_neg_numeral)

lemma fl32_one: "fl32 1 = 1"
  using fl32_eval [of 0 1] by (simp add: round_half_even_def powr_neg_numeral)

lemma fl32_five_quarters: "fl32 (5 / 4) = 5 / 4"
  using fl32_eval [of 0 "5 / 4"] by (simp add: round_half_even_def powr_neg_numeral)

lemma fl32_three_halves: "fl32 (3 / 2) = 3 / 2"
  using fl32_eval [of 0 "3 / 2"] by (simp add: round_half_even_def powr_neg_numeral)

lemma fl32_two: "fl32 2 = 2"
  using fl32_eval [of 1 2] by (simp add: round_half_even_def powr_neg_numeral)

lemma fl32_five_halves: "fl32 (5 / 2) = 5 / 2"
  using fl32_eval [of 1 "5 / 2"] by (simp add: round_half_even_def powr_neg_numeral)

lemma fl32_one_41st: "fl32 (1 / 41) = 13094412 / 2 ^ 29"
  using fl32_eval [of "- 6" "1 / 41"] by (simp add: round_half_even_def powr_neg_numeral)

lemma fl32_41_41sts: "fl32 (13094412 / 2 ^ 29 * 41) = 16777215 / 2 ^ 24"
  using fl32_eval [of "- 1" "13094412 / 2 ^ 29 * 41"]
  by (simp add: round_half_even_def powr_neg_numeral)

lemma fl32_below_one: "fl32 (16777215 / 2 ^ 24) = 16777215 / 2 ^ 24"
  using fl32_eval [of "- 1" "16777215 / 2 ^ 24"]
  by (simp add: round_half_even_def powr_neg_numeral)

lemma fadd32_zero_right: "fadd32 a 0 = fl32 a"
  by (simp add: fadd32_def)

lemma fmul32_zero_right: "fmul32 a 0 = 0"
  by (simp add: fmul32_def fl32_zero)

section \<open>Early returns\<close>

text \<open>
  Claim C8. The tick degrades silently by early return. With no wave-field provider bound
  (\<open>OceanManager\<close> null) the tick changes nothing: no force, no kinematic snap, no change
  of damping or velocity. With a provider bound, a simulating body and an empty
  \<open>TestPoints\<close>, the tick changes nothing either. The tick is a total function: it has
  no error result.
\<close>
theorem C8_tick_early_return:
  "(OceanManager (Comp w) = None \<longrightarrow> TickComponent w = w) \<and>
   (OceanManager (Comp w) = Some h \<and> SimulatingPhysics (UpdatedPrimitive w)
      \<and> TestPoints (Comp w) = [] \<longrightarrow> TickComponent w = w)"
  by (simp add: TickComponent_unbound TickComponent_empty)

theorem C8_tick_early_return_witness:
  "OceanManager (Comp (ex_world\<lparr>Comp := ex_comp\<lparr>OceanManager := None\<rparr>\<rparr>)) = None \<and>
   TickComponent (ex_world\<lparr>Comp := ex_comp\<lparr>OceanManager := None\<rparr>\<rparr>) =
     ex_world\<lparr>Comp := ex_comp\<lparr>OceanManager := None\<rparr>\<rparr> \<and>
   OceanManager (Comp (ex_world\<lparr>Comp := ex_comp\<lparr>TestPoints := []\<rparr>\<rparr>)) = Some (flat_sea 0) \<and>
   SimulatingPhysics (UpdatedPrimitive (ex_world\<lparr>Comp := ex_comp\<lparr>TestPoints := []\<rparr>\<rparr>)) \<and>
   TestPoints (Comp (ex_world\<lparr>Comp := ex_comp\<lparr>TestPoints := []\<rparr>\<rparr>)) = [] \<and>
   TickComponent (ex_world\<lparr>Comp := ex_comp\<lparr>TestPoints := []\<rparr>\<rparr>) =
     ex_world\<lparr>Comp := ex_comp\<lparr>TestPoints := []\<rparr>\<rparr>"
  using C8_tick_early_return [of "ex_world\<lparr>Comp := ex_comp\<lparr>OceanManager := None\<rparr>\<rparr>" "flat_sea 0"]
    C8_tick_early_return [of "ex_world\<lparr>Comp := ex_comp\<lparr>TestPoints := []\<rparr>\<rparr>" "flat_sea 0"]
  by (simp add: ex_world_def ex_comp_def ex_body_def)

section \<open>The kinematic fallback\<close>

text \<open>
  Claim C7. With a provider bound and a body that is not simulating physics, the tick
  sets the body's world location to its current \<open>x\<close> and \<open>y\<close> and the wave height
  sampled at its current location, and does nothing else: no force is added, and the
  velocity and both dampings keep their values.
\<close>
theorem C7_kinematic_snap:
  assumes "OceanManager (Comp w) = Some h" "\<not> SimulatingPhysics (UpdatedPrimitive w)"
  shows "GetComponentLocation (UpdatedPrimitive (TickComponent w)) =
           \<lparr>X = X (GetComponentLocation (UpdatedPrimitive w)),
            Y = Y (GetComponentLocation (UpdatedPrimitive w)),
            Z = Z (h (GetComponentLocation (UpdatedPrimitive w)))\<rparr> \<and>
         Forces (UpdatedPrimitive (TickComponent w)) = Forces (UpdatedPrimitive w) \<and>
         PhysicsLinearVelocity (UpdatedPrimitive (TickComponent w)) =
           PhysicsLinearVelocity (UpdatedPrimitive w) \<and>
         LinearDamping (UpdatedPrimitive (TickComponent w)) = LinearDamping (UpdatedPrimitive w) \<and>
         AngularDamping (UpdatedPrimitive (TickComponent w)) = AngularDamping (UpdatedPrimitive w) \<and>
         TickComponent w =
           w\<lparr>UpdatedPrimitive := (UpdatedPrimitive w)\<lparr>ComponentToWorld :=
               (ComponentToWorld (UpdatedPrimitive w))\<lparr>Translation :=
                  \<lparr>X = X (GetComponentLocation (UpdatedPrimitive w)),
                   Y = Y (GetComponentLocation (UpdatedPrimitive w)),
                   Z = Z (h (GetComponentLocation (UpdatedPrimitive w)))\<rparr>\<rparr>\<rparr>\<rparr>"
  using assms by (simp add: TickComponent_kinematic SetWorldLocation_def GetComponentLocation_def)

theorem C7_kinematic_snap_witness:
  "OceanManager (Comp ex_kinematic) = Some (flat_sea 5) \<and>
   \<not> SimulatingPhysics (UpdatedPrimitive ex_kinematic) \<and>
   GetComponentLocation (UpdatedPrimitive ex_kinematic) = \<lparr>X = 2, Y = 3, Z = 1\<rparr> \<and>
   GetComponentLocation (UpdatedPrimitive (TickComponent ex_kinematic)) = \<lparr>X = 2, Y = 3, Z = 5\<rparr> \<and>
   Forces (UpdatedPrimitive (TickComponent ex_kinematic)) = [] \<and>
   PhysicsLinearVelocity (UpdatedPrimitive (TickComponent ex_kinematic)) = \<lparr>X = 3, Y = 4, Z = 0\<rparr> \<and>
   LinearDamping (UpdatedPrimitive (TickComponent ex_kinematic)) = 7 \<and>
   AngularDamping (UpdatedPrimitive (TickComponent ex_kinematic)) = 9"
proof -
  have a: "OceanManager (Comp ex_kinematic) = Some (flat_sea 5)"
    by (simp add: ex_kinematic_def ex_world_def ex_comp_def)
  have b: "\<not> SimulatingPhysics (UpdatedPrimitive ex_kinematic)"
    by (simp add: ex_kinematic_def ex_world_def ex_body_def)
  show ?thesis
    using C7_kinematic_snap [OF a b] a b
    by (simp add: GetComponentLocation_def flat_sea_def)
       (simp add: ex_kinematic_def ex_world_def ex_body_def)
qed

section \<open>What the tick leaves alone\<close>

text \<open>
  Claim C10. \<open>TickComponent\<close> changes no field of the component: neither a property
  (densities, dampings, velocity damper, clamp settings, radius, test points, density
  overrides, debug flag, constraint settings) nor the cached \<open>_SignedRadius\<close>,
  \<open>_baseLinearDamping\<close> and \<open>_baseAngularDamping\<close>. \<open>InitializeComponent\<close> is what writes the
  three cached fields and replaces \<open>TestPointRadius\<close> by its absolute value (it also binds
  the first ocean manager of the world when none is assigned); the constructor does not
  touch the cached fields.
\<close>
theorem C10_tick_preserves_configuration:
  "Comp (TickComponent w) = Comp w \<and>
   Comp (InitializeComponent w) =
     (Comp w)\<lparr>OceanManager :=
                 (case OceanManager (Comp w) of
                    Some m \<Rightarrow> Some m
                  | None \<Rightarrow> (case OceanManagers w of [] \<Rightarrow> None | m # _ \<Rightarrow> Some m)),
              TestPointRadius := \<bar>TestPointRadius (Comp w)\<bar>,
              SignedRadius := Sign (GravityZ w) * \<bar>TestPointRadius (Comp w)\<bar>,
              baseLinearDamping := LinearDamping (UpdatedPrimitive w),
              baseAngularDamping := AngularDamping (UpdatedPrimitive w)\<rparr> \<and>
   SignedRadius (Constructor c) = SignedRadius c \<and>
   baseLinearDamping (Constructor c) = baseLinearDamping c \<and>
   baseAngularDamping (Constructor c) = baseAngularDamping c"
  by (simp add: Comp_Tick InitializeComponent_def Let_def Constructor_def
      split: option.splits list.splits)

theorem C10_tick_preserves_configuration_witness:
  "Comp (TickComponent ex_world) = ex_comp \<and>
   Comp (InitializeComponent (ex_world\<lparr>Comp := ex_comp\<lparr>TestPointRadius := - 3\<rparr>\<rparr>)) =
     ex_comp\<lparr>TestPointRadius := 3, SignedRadius := - 3, baseLinearDamping := 7,
             baseAngularDamping := 9\<rparr>"
  using C10_tick_preserves_configuration [of ex_world ex_comp]
    C10_tick_preserves_configuration [of "ex_world\<lparr>Comp := ex_comp\<lparr>TestPointRadius := - 3\<rparr>\<rparr>" ex_comp]
  by (simp add: Sign_def) (simp add: ex_world_def ex_comp_def ex_body_def)








lemma spec_depthFraction_eq:
  "spec_depthFraction g w i =
     DepthMultiplier (spec_h g w i) (Z (spec_w w i)) (SignedRadius (Comp w)) (TestPointRadius (Comp w))"
  by (simp add: spec_depthFraction_def DepthMultiplier_def mult.commute)

section \<open>The depth fraction\<close>



section \<open>The submersion test\<close>

text \<open>
  Claim C4. A test point whose sampled wave height equals \<open>w_i.z + signedRadius\<close> exactly
  is not underwater, the test being a strict \<open>>\<close>: the loop iteration for it, in
  whatever state the loop has reached, leaves the counter and the body's forces as they
  are; over the whole tick the forces added are those of the submerged indices, of which
  \<open>i\<close> is none, and the damping is computed from their number.
\<close>
theorem C4_boundary_not_underwater:
  assumes "OceanManager (Comp w) = Some h" "SimulatingPhysics (UpdatedPrimitive w)"
    "i < length (TestPoints (Comp w))"
    "Z (h (spec_w w i)) = Z (spec_w w i) + SignedRadius (Comp w)"
  shows "\<not> spec_underwater h w i \<and>
         fst (TickPoint h (ComponentToWorld (UpdatedPrimitive w))
                (real (length (TestPoints (Comp w)))) i (k, loop_result h w js)) = k \<and>
         Forces (UpdatedPrimitive (snd (TickPoint h (ComponentToWorld (UpdatedPrimitive w))
                (real (length (TestPoints (Comp w)))) i (k, loop_result h w js)))) =
           Forces (UpdatedPrimitive (loop_result h w js)) \<and>
         i \<notin> set (spec_submerged h w) \<and>
         Forces (UpdatedPrimitive (TickComponent w)) =
           Forces (UpdatedPrimitive w) @
             map (\<lambda>j. (spec_force h w j, spec_w w j)) (spec_submerged h w) \<and>
         LinearDamping (UpdatedPrimitive (TickComponent w)) =
           fadd32 (baseLinearDamping (Comp w))
             (fmul32 (fdiv32 (FluidLinearDamping (Comp w)) (real (length (TestPoints (Comp w)))))
                (real (length (spec_submerged h w))))"
proof -
  have nuw: "\<not> spec_underwater h w i"
    using assms(4) by (simp add: spec_underwater_def spec_h_def)
  have ne: "TestPoints (Comp w) \<noteq> []"
    using assms(3) by auto
  have step: "TickPoint h (ComponentToWorld (UpdatedPrimitive w))
      (real (length (TestPoints (Comp w)))) i (k, loop_result h w js) =
      (k, loop_result h (loop_result h w js) [i])"
    using TickPoint_step [of h "loop_result h w js" i k] nuw
    by (simp add: loop_result_frame)
  have frc: "Forces (UpdatedPrimitive (loop_result h (loop_result h w js) [i])) =
      Forces (UpdatedPrimitive (loop_result h w js))"
    using nuw by (simp add: loop_result_def spec_frame)
  have tick: "TickComponent w = tick_result h w"
    using assms(1,2) ne by (rule TickComponent_simulating)
  show ?thesis
    using nuw
    by (simp add: step frc tick tick_result_fields spec_submerged_def spec_totalPoints_def
        spec_submergedCount_def)
qed

lemma ex_boundary_point: "spec_w ex_boundary 0 = \<lparr>X = 0, Y = 0, Z = 1\<rparr>"
  by (simp add: spec_w_def ex_boundary_def ex_world_def ex_comp_def ex_body_def
      TransformPosition_def vadd_def)

theorem C4_boundary_not_underwater_witness:
  "OceanManager (Comp ex_boundary) = Some (flat_sea 0) \<and>
   SimulatingPhysics (UpdatedPrimitive ex_boundary) \<and>
   (0::nat) < length (TestPoints (Comp ex_boundary)) \<and>
   Z (flat_sea 0 (spec_w ex_boundary 0)) = Z (spec_w ex_boundary 0) + SignedRadius (Comp ex_boundary) \<and>
   spec_submerged (flat_sea 0) ex_boundary = [] \<and>
   Forces (UpdatedPrimitive (TickComponent ex_boundary)) = [] \<and>
   LinearDamping (UpdatedPrimitive (TickComponent ex_boundary)) = 1 / 4"
proof -
  have a: "OceanManager (Comp ex_boundary) = Some (flat_sea 0)"
    by (simp add: ex_boundary_def ex_world_def ex_comp_def)
  have b: "SimulatingPhysics (UpdatedPrimitive ex_boundary)"
    by (simp add: ex_boundary_def ex_world_def ex_body_def)
  have c: "0 < length (TestPoints (Comp ex_boundary))"
    by (simp add: ex_boundary_def ex_world_def)
  have d: "Z (flat_sea 0 (spec_w ex_boundary 0)) =
      Z (spec_w ex_boundary 0) + SignedRadius (Comp ex_boundary)"
    by (simp add: ex_boundary_point flat_sea_def) (simp add: ex_boundary_def ex_world_def ex_comp_def)
  have len: "length (TestPoints (Comp ex_boundary)) = Suc 0"
    by (simp add: ex_boundary_def ex_world_def)
  have sub: "spec_submerged (flat_sea 0) ex_boundary = []"
    using C4_boundary_not_underwater [OF a b c d] by (simp add: spec_submerged_def len)
  have base: "baseLinearDamping (Comp ex_boundary) = 1 / 4 \<and>
      Forces (UpdatedPrimitive ex_boundary) = []"
    by (simp add: ex_boundary_def ex_world_def ex_comp_def ex_body_def)
  show ?thesis
    using C4_boundary_not_underwater [OF a b c d, of 0 "[]"] a b c d sub base
    by (simp add: fmul32_zero_right fadd32_zero_right fl32_quarter)
qed

section \<open>The force on a submerged point\<close>

text \<open>
  Claim C1. In a tick with a bound provider, a simulating body and at least one test
  point, the forces added to the body are, in the order of the test points, one per
  submerged point \<open>i\<close>, applied at the world point \<open>w_i\<close>, and equal to the
  specification's \<open>(dampingForce.x, dampingForce.y, dampingForce.z + buoyantForceZ)\<close> with
  \<open>buoyantForceZ = (bodyMass / density_i) * fluidDensity * (-gravityZ) / totalPoints *
  depthFraction\<close>, \<open>dampingForce = -velocityAtPoint(w_i) * velocityDamper * bodyMass *
  depthFraction\<close> component-wise, and \<open>density_i\<close> the override at index \<open>i\<close> when the index
  is valid, else the mesh density; so every submerged point has its force among the
  body's.
\<close>

theorem C1_point_force:
  assumes "OceanManager (Comp w) = Some h" "SimulatingPhysics (UpdatedPrimitive w)"
    "TestPoints (Comp w) \<noteq> []"
  shows "Forces (UpdatedPrimitive (TickComponent w)) =
           Forces (UpdatedPrimitive w) @
             map (\<lambda>i. (spec_force h w i, spec_w w i)) (spec_submerged h w) \<and>
         (\<forall>i. i < length (TestPoints (Comp w)) \<and> spec_underwater h w i \<longrightarrow>
            (spec_force h w i, spec_w w i) \<in> set (Forces (UpdatedPrimitive (TickComponent w))))"
proof -
  have tick: "TickComponent w = tick_result h w"
    using assms by (rule TickComponent_simulating)
  have "(spec_force h w i, spec_w w i) \<in>
      (\<lambda>i. (spec_force h w i, spec_w w i)) ` set (spec_submerged h w)"
    if "i < length (TestPoints (Comp w))" "spec_underwater h w i" for i
    using that by (intro imageI) (simp add: spec_submerged_def)
  then show ?thesis
    by (simp add: tick tick_result_fields)
qed

theorem C1_point_force_witness:
  "OceanManager (Comp ex_world) = Some (flat_sea 0) \<and>
   SimulatingPhysics (UpdatedPrimitive ex_world) \<and>
   TestPoints (Comp ex_world) \<noteq> [] \<and>
   (0::nat) < length (TestPoints (Comp ex_world)) \<and>
   spec_underwater (flat_sea 0) ex_world 0 \<and>
   Forces (UpdatedPrimitive (TickComponent ex_world)) =
     [(\<lparr>X = Fin (- 90), Y = Fin (- 120), Z = Fin 5000\<rparr>, \<lparr>X = 0, Y = 0, Z = 0\<rparr>)]"
proof -
  have a: "OceanManager (Comp ex_world) = Some (flat_sea 0)"
    by (simp add: ex_world_def ex_comp_def)
  have b: "SimulatingPhysics (UpdatedPrimitive ex_world)"
    by (simp add: ex_world_def ex_body_def)
  have c: "TestPoints (Comp ex_world) \<noteq> []"
    by (simp add: ex_world_def ex_comp_def)
  have d: "Forces (UpdatedPrimitive ex_world) = []"
    by (simp add: ex_world_def ex_body_def)
  show ?thesis
    using C1_point_force [OF a b c] a b c d
    by (simp add: ex_submerged ex_force ex_points ex_underwater)
qed

section \<open>A test point radius of zero\<close>

lemma DepthMultiplier_zero_radius: "z + sr < h \<Longrightarrow> DepthMultiplier h z sr 0 = 1"
  by (simp add: DepthMultiplier_def Clamp_def inf_of_sign_def)

lemma spec_force_full:
  assumes "spec_depthFraction h w i = 1"
  shows "spec_force h w i = full_force w i"
  by (simp add: spec_force_def spec_dampingForce_def spec_buoyantForceZ_def assms
      full_force_def DampingForce_def BuoyancyForceZ_def spec_density_def PointDensity_def
      spec_totalPoints_def Let_def)

text \<open>
  Claim C3, as the code has it. There is no guard: with \<open>TestPointRadius = 0\<close> the
  quotient of line 116 is evaluated with the divisor 0. After \<open>InitializeComponent\<close>
  (which leaves \<open>TestPointRadius = +0\<close> and \<open>_SignedRadius = 0\<close>) a point is underwater
  exactly when \<open>h_i > w_i.z\<close>; for such a point the quotient is the IEEE \<open>+infinity\<close>,
  \<open>FMath::Clamp\<close> turns it into 1, and the tick adds for it the force with
  \<open>depthFraction = 1\<close>; it adds no force for any other point.
\<close>

theorem C3_zero_radius_tick:
  assumes "TestPointRadius (Comp w0) = 0" "w = InitializeComponent w0"
    "OceanManager (Comp w) = Some h" "SimulatingPhysics (UpdatedPrimitive w)"
    "TestPoints (Comp w) \<noteq> []"
  shows "TestPointRadius (Comp w) = 0 \<and> SignedRadius (Comp w) = 0 \<and>
         (\<forall>i. spec_underwater h w i = (Z (spec_w w i) < spec_h h w i)) \<and>
         (\<forall>i. Z (spec_w w i) < spec_h h w i \<longrightarrow>
            xdiv (Fin (spec_h h w i - (Z (spec_w w i) + SignedRadius (Comp w))))
                 (Fin (TestPointRadius (Comp w) * 2)) = PInf \<and>
            DepthMultiplier (spec_h h w i) (Z (spec_w w i)) (SignedRadius (Comp w))
              (TestPointRadius (Comp w)) = 1) \<and>
         Forces (UpdatedPrimitive (TickComponent w)) =
           Forces (UpdatedPrimitive w) @
             map (\<lambda>i. (full_force w i, spec_w w i))
               (filter (\<lambda>i. Z (spec_w w i) < spec_h h w i) [0..<length (TestPoints (Comp w))])"
proof -
  have r: "TestPointRadius (Comp w) = 0" and sr: "SignedRadius (Comp w) = 0"
    using assms(1) unfolding assms(2)
    by (simp_all add: InitializeComponent_def Let_def split: list.splits)
  have uw: "spec_underwater h w i = (Z (spec_w w i) < spec_h h w i)" for i
    by (simp add: spec_underwater_def sr)
  have q: "xdiv (Fin (spec_h h w i - (Z (spec_w w i) + SignedRadius (Comp w))))
      (Fin (TestPointRadius (Comp w) * 2)) = PInf" if "Z (spec_w w i) < spec_h h w i" for i
    using that by (simp add: r sr inf_of_sign_def)
  have dm: "DepthMultiplier (spec_h h w i) (Z (spec_w w i)) (SignedRadius (Comp w))
      (TestPointRadius (Comp w)) = 1" if "Z (spec_w w i) < spec_h h w i" for i
    using that by (simp add: r sr DepthMultiplier_zero_radius)
  have ff: "spec_force h w i = full_force w i" if "spec_underwater h w i" for i
    using that dm [of i] by (intro spec_force_full) (simp add: spec_depthFraction_eq uw)
  have tick: "TickComponent w = tick_result h w"
    using assms(3-5) by (rule TickComponent_simulating)
  have "map (\<lambda>i. (spec_force h w i, spec_w w i)) (spec_submerged h w) =
      map (\<lambda>i. (full_force w i, spec_w w i)) (spec_submerged h w)"
    by (rule map_cong) (simp_all add: spec_submerged_def ff)
  moreover have "spec_submerged h w =
      filter (\<lambda>i. Z (spec_w w i) < spec_h h w i) [0..<length (TestPoints (Comp w))]"
    unfolding spec_submerged_def by (rule filter_cong) (simp_all add: uw)
  ultimately have frc: "Forces (UpdatedPrimitive (TickComponent w)) =
      Forces (UpdatedPrimitive w) @
        map (\<lambda>i. (full_force w i, spec_w w i))
          (filter (\<lambda>i. Z (spec_w w i) < spec_h h w i) [0..<length (TestPoints (Comp w))])"
    by (simp add: tick tick_result_fields)
  show ?thesis
    using r sr uw q dm frc by blast
qed

lemma ex_zero_radius_init:
  "Comp (InitializeComponent ex_zero_radius) =
     ex_comp\<lparr>OceanManager := Some (flat_sea 2), TestPointRadius := 0, SignedRadius := 0,
             baseLinearDamping := 7, baseAngularDamping := 9\<rparr>"
  "UpdatedPrimitive (InitializeComponent ex_zero_radius) = ex_body"
  "GravityZ (InitializeComponent ex_zero_radius) = - 10"
  by (simp_all add: InitializeComponent_def Let_def ex_zero_radius_def ex_world_def)
     (simp_all add: ex_comp_def ex_body_def)

lemma ex_zero_radius_points:
  "spec_w (InitializeComponent ex_zero_radius) 0 = \<lparr>X = 0, Y = 0, Z = 0\<rparr>"
  "spec_w (InitializeComponent ex_zero_radius) (Suc 0) = \<lparr>X = 0, Y = 0, Z = 10\<rparr>"
  by (simp_all add: spec_w_def ex_zero_radius_init)
     (simp_all add: ex_comp_def ex_body_def TransformPosition_def vadd_def)

lemma ex_zero_radius_force:
  "full_force (InitializeComponent ex_zero_radius) 0 =
     \<lparr>X = Fin (- 180), Y = Fin (- 240), Z = Fin 10000\<rparr>"
  by (simp add: full_force_def ex_zero_radius_points ex_zero_radius_init Let_def)
     (simp add: ex_comp_def ex_body_def GetVelocityAtPoint_def DampingForce_def
        BuoyancyForceZ_def PointDensity_def vscale_def vmul_def vneg_def)

theorem C3_zero_radius_tick_witness:
  "TestPointRadius (Comp ex_zero_radius) = 0 \<and>
   OceanManager (Comp (InitializeComponent ex_zero_radius)) = Some (flat_sea 2) \<and>
   SimulatingPhysics (UpdatedPrimitive (InitializeComponent ex_zero_radius)) \<and>
   TestPoints (Comp (InitializeComponent ex_zero_radius)) \<noteq> [] \<and>
   Z (spec_w (InitializeComponent ex_zero_radius) 0)
     < spec_h (flat_sea 2) (InitializeComponent ex_zero_radius) 0 \<and>
   spec_underwater (flat_sea 2) (InitializeComponent ex_zero_radius) 0 \<and>
   \<not> spec_underwater (flat_sea 2) (InitializeComponent ex_zero_radius) (Suc 0) \<and>
   DepthMultiplier (spec_h (flat_sea 2) (InitializeComponent ex_zero_radius) 0)
     (Z (spec_w (InitializeComponent ex_zero_radius) 0))
     (SignedRadius (Comp (InitializeComponent ex_zero_radius)))
     (TestPointRadius (Comp (InitializeComponent ex_zero_radius))) = 1 \<and>
   Forces (UpdatedPrimitive (TickComponent (InitializeComponent ex_zero_radius))) =
     [(\<lparr>X = Fin (- 180), Y = Fin (- 240), Z = Fin 10000\<rparr>, \<lparr>X = 0, Y = 0, Z = 0\<rparr>)]"
proof -
  have a: "TestPointRadius (Comp ex_zero_radius) = 0"
    by (simp add: ex_zero_radius_def ex_world_def)
  have b: "OceanManager (Comp (InitializeComponent ex_zero_radius)) = Some (flat_sea 2)"
    "SimulatingPhysics (UpdatedPrimitive (InitializeComponent ex_zero_radius))"
    "TestPoints (Comp (InitializeComponent ex_zero_radius)) \<noteq> []"
    by (simp_all add: ex_zero_radius_init) (simp_all add: ex_comp_def ex_body_def)
  have len: "length (TestPoints (Comp (InitializeComponent ex_zero_radius))) = Suc (Suc 0)"
    by (simp add: ex_zero_radius_init) (simp add: ex_comp_def)
  have frs: "Forces (UpdatedPrimitive (InitializeComponent ex_zero_radius)) = []"
    by (simp add: ex_zero_radius_init) (simp add: ex_body_def)
  have h0: "Z (spec_w (InitializeComponent ex_zero_radius) 0)
      < spec_h (flat_sea 2) (InitializeComponent ex_zero_radius) 0"
    by (simp add: spec_h_def ex_zero_radius_points flat_sea_def)
  have h1: "\<not> Z (spec_w (InitializeComponent ex_zero_radius) (Suc 0))
      < spec_h (flat_sea 2) (InitializeComponent ex_zero_radius) (Suc 0)"
    by (simp add: spec_h_def ex_zero_radius_points flat_sea_def)
  note t = C3_zero_radius_tick [OF a refl b]
  have uw: "spec_underwater (flat_sea 2) (InitializeComponent ex_zero_radius) 0"
    "\<not> spec_underwater (flat_sea 2) (InitializeComponent ex_zero_radius) (Suc 0)"
    using t h0 h1 by blast+
  have dm: "DepthMultiplier (spec_h (flat_sea 2) (InitializeComponent ex_zero_radius) 0)
      (Z (spec_w (InitializeComponent ex_zero_radius) 0))
      (SignedRadius (Comp (InitializeComponent ex_zero_radius)))
      (TestPointRadius (Comp (InitializeComponent ex_zero_radius))) = 1"
    using t h0 by blast
  have "Forces (UpdatedPrimitive (TickComponent (InitializeComponent ex_zero_radius))) =
      Forces (UpdatedPrimitive (InitializeComponent ex_zero_radius)) @
        map (\<lambda>i. (full_force (InitializeComponent ex_zero_radius) i,
                    spec_w (InitializeComponent ex_zero_radius) i))
          (filter (\<lambda>i. Z (spec_w (InitializeComponent ex_zero_radius) i)
                          < spec_h (flat_sea 2) (InitializeComponent ex_zero_radius) i)
             [0..<length (TestPoints (Comp (InitializeComponent ex_zero_radius)))])"
    using t by blast
  then have f: "Forces (UpdatedPrimitive (TickComponent (InitializeComponent ex_zero_radius))) =
      [(\<lparr>X = Fin (- 180), Y = Fin (- 240), Z = Fin 10000\<rparr>, \<lparr>X = 0, Y = 0, Z = 0\<rparr>)]"
    using h0 h1 by (simp add: len frs ex_zero_radius_force ex_zero_radius_points)
  show ?thesis
    using a b h0 uw dm f by blast
qed

text \<open>
  Claim C3 fails as stated: the computation is not guarded. In the tick of the example
  world with radius 0 on a sea at height 2, the iteration for the point at height 0 is
  underwater, its divisor \<open>TestPointRadius * 2\<close> is 0, and the quotient that line 116
  computes, of which \<open>DepthMultiplier\<close> is the clamp, is \<open>+infinity\<close>.
\<close>

theorem C3_unguarded_division_counterexample:
  "TestPointRadius (Comp ex_zero_radius) = 0 \<and>
   SignedRadius (Comp ex_zero_radius) = 0 \<and>
   spec_w ex_zero_radius 0 = \<lparr>X = 0, Y = 0, Z = 0\<rparr> \<and>
   spec_h (flat_sea 2) ex_zero_radius 0 = 2 \<and>
   spec_underwater (flat_sea 2) ex_zero_radius 0 \<and>
   TestPointRadius (Comp ex_zero_radius) * 2 = 0 \<and>
   DepthMultiplier 2 0 0 0 = Clamp (xdiv (Fin (2 - (0 + 0))) (Fin (0 * 2))) 0 1 \<and>
   xdiv (Fin (2 - (0 + 0))) (Fin (0 * 2)) = PInf"
proof -
  have r: "TestPointRadius (Comp ex_zero_radius) = 0" "SignedRadius (Comp ex_zero_radius) = 0"
    by (simp_all add: ex_zero_radius_def ex_world_def)
  have p: "spec_w ex_zero_radius 0 = \<lparr>X = 0, Y = 0, Z = 0\<rparr>"
    by (simp add: spec_w_def ex_zero_radius_def ex_world_def ex_comp_def ex_body_def
        TransformPosition_def vadd_def)
  have h: "spec_h (flat_sea 2) ex_zero_radius 0 = 2"
    by (simp add: spec_h_def flat_sea_def)
  have u: "spec_underwater (flat_sea 2) ex_zero_radius 0"
    by (simp add: spec_underwater_def h p r)
  have d: "DepthMultiplier 2 0 0 0 = Clamp (xdiv (Fin (2 - (0 + 0))) (Fin (0 * 2))) 0 1"
    by (simp only: DepthMultiplier_def)
  have q: "xdiv (Fin (2 - (0 + 0))) (Fin (0 * 2)) = PInf"
    by (simp add: inf_of_sign_def)
  show ?thesis
    using r p h u d q by simp
qed

section \<open>The damping update\<close>

lemma spec_underwater_tick_result:
  "spec_underwater h (tick_result h w) = spec_underwater h w"
  by (rule ext) (simp add: spec_underwater_def spec_h_def spec_w_def tick_result_fields)

lemma spec_submergedCount_tick_result:
  "spec_submergedCount h (tick_result h w) = spec_submergedCount h w"
  by (simp add: spec_submergedCount_def spec_submerged_def spec_underwater_tick_result
      tick_result_fields)

text \<open>
  Claim C5, as the code has it. After the point loop of a tick with a bound provider, a
  simulating body and at least one test point, the body's linear damping is the
  single-precision value of \<open>baseLinearDamping + fluidLinearDamping / totalPoints *
  submergedCount\<close>, computed left to right and rounded after the quotient, the product and
  the sum; the angular damping likewise from \<open>baseAngularDamping\<close> and
  \<open>fluidAngularDamping\<close>. With no point submerged it is exactly the baseline (a float).
  The values are computed from the cached baseline and not from the body's current
  damping: any tick of a world with the same component and the same submerged count sets
  the same dampings, and so does ticking again.
\<close>

theorem C5_damping_single_precision:
  assumes "OceanManager (Comp w) = Some h" "SimulatingPhysics (UpdatedPrimitive w)"
    "TestPoints (Comp w) \<noteq> []"
  shows "LinearDamping (UpdatedPrimitive (TickComponent w)) =
           fadd32 (baseLinearDamping (Comp w))
             (fmul32 (fdiv32 (FluidLinearDamping (Comp w)) (spec_totalPoints w))
                (real (spec_submergedCount h w))) \<and>
         AngularDamping (UpdatedPrimitive (TickComponent w)) =
           fadd32 (baseAngularDamping (Comp w))
             (fmul32 (fdiv32 (FluidAngularDamping (Comp w)) (spec_totalPoints w))
                (real (spec_submergedCount h w))) \<and>
         (spec_submergedCount h w = 0 \<and> is_float32 (baseLinearDamping (Comp w)) \<longrightarrow>
            LinearDamping (UpdatedPrimitive (TickComponent w)) = baseLinearDamping (Comp w)) \<and>
         (spec_submergedCount h w = 0 \<and> is_float32 (baseAngularDamping (Comp w)) \<longrightarrow>
            AngularDamping (UpdatedPrimitive (TickComponent w)) = baseAngularDamping (Comp w)) \<and>
         (\<forall>w'. Comp w' = Comp w \<and> SimulatingPhysics (UpdatedPrimitive w')
                \<and> spec_submergedCount h w' = spec_submergedCount h w \<longrightarrow>
            LinearDamping (UpdatedPrimitive (TickComponent w')) =
              LinearDamping (UpdatedPrimitive (TickComponent w)) \<and>
            AngularDamping (UpdatedPrimitive (TickComponent w')) =
              AngularDamping (UpdatedPrimitive (TickComponent w))) \<and>
         LinearDamping (UpdatedPrimitive (TickComponent (TickComponent w))) =
           LinearDamping (UpdatedPrimitive (TickComponent w)) \<and>
         AngularDamping (UpdatedPrimitive (TickComponent (TickComponent w))) =
           AngularDamping (UpdatedPrimitive (TickComponent w))"
proof -
  have tick: "TickComponent w = tick_result h w"
    using assms by (rule TickComponent_simulating)
  have lin: "LinearDamping (UpdatedPrimitive (TickComponent w)) =
      fadd32 (baseLinearDamping (Comp w))
        (fmul32 (fdiv32 (FluidLinearDamping (Comp w)) (spec_totalPoints w))
           (real (spec_submergedCount h w)))"
    by (simp add: tick tick_result_fields)
  have ang: "AngularDamping (UpdatedPrimitive (TickComponent w)) =
      fadd32 (baseAngularDamping (Comp w))
        (fmul32 (fdiv32 (FluidAngularDamping (Comp w)) (spec_totalPoints w))
           (real (spec_submergedCount h w)))"
    by (simp add: tick tick_result_fields)
  have lin0: "LinearDamping (UpdatedPrimitive (TickComponent w)) = baseLinearDamping (Comp w)"
    if "spec_submergedCount h w = 0" "is_float32 (baseLinearDamping (Comp w))"
    using that(2) unfolding lin that(1)
    by (simp add: fmul32_zero_right fadd32_zero_right is_float32_def)
  have ang0: "AngularDamping (UpdatedPrimitive (TickComponent w)) = baseAngularDamping (Comp w)"
    if "spec_submergedCount h w = 0" "is_float32 (baseAngularDamping (Comp w))"
    using that(2) unfolding ang that(1)
    by (simp add: fmul32_zero_right fadd32_zero_right is_float32_def)
  have other: "LinearDamping (UpdatedPrimitive (TickComponent w')) =
        LinearDamping (UpdatedPrimitive (TickComponent w)) \<and>
      AngularDamping (UpdatedPrimitive (TickComponent w')) =
        AngularDamping (UpdatedPrimitive (TickComponent w))"
    if "Comp w' = Comp w" "SimulatingPhysics (UpdatedPrimitive w')"
      "spec_submergedCount h w' = spec_submergedCount h w" for w'
  proof -
    have "TickComponent w' = tick_result h w'"
      using that assms(1,3) by (intro TickComponent_simulating) simp_all
    moreover have "spec_totalPoints w' = spec_totalPoints w"
      using that(1) by (simp add: spec_totalPoints_def)
    ultimately show ?thesis
      using that(1,3) by (simp add: tick tick_result_fields)
  qed
  have again: "LinearDamping (UpdatedPrimitive (TickComponent (TickComponent w))) =
        LinearDamping (UpdatedPrimitive (TickComponent w)) \<and>
      AngularDamping (UpdatedPrimitive (TickComponent (TickComponent w))) =
        AngularDamping (UpdatedPrimitive (TickComponent w))"
    using assms(2)
    by (intro other) (simp_all add: tick tick_result_fields spec_submergedCount_tick_result)
  show ?thesis
    using lin ang lin0 ang0 other again by blast
qed

lemma ex_sea_fields:
  "OceanManager (Comp (ex_sea l)) = Some (flat_sea l)"
  "SimulatingPhysics (UpdatedPrimitive (ex_sea l))"
  "TestPoints (Comp (ex_sea l)) \<noteq> []"
  "length (TestPoints (Comp (ex_sea l))) = Suc (Suc 0)"
  "baseLinearDamping (Comp (ex_sea l)) = 1 / 4"
  "baseAngularDamping (Comp (ex_sea l)) = 1 / 2"
  "FluidLinearDamping (Comp (ex_sea l)) = 1"
  "FluidAngularDamping (Comp (ex_sea l)) = 2"
  by (simp_all add: ex_sea_def ex_world_def ex_comp_def ex_body_def)

lemma ex_sea_underwater:
  "spec_underwater (flat_sea l) (ex_sea l) 0 = (- 1 < l)"
  "spec_underwater (flat_sea l) (ex_sea l) (Suc 0) = (9 < l)"
  by (simp_all add: spec_underwater_def spec_h_def spec_w_def flat_sea_def ex_sea_def
      ex_world_def ex_comp_def ex_body_def TransformPosition_def vadd_def)

lemma ex_sea_count:
  "spec_submergedCount (flat_sea l) (ex_sea l) =
     (if - 1 < l then 1 else 0) + (if 9 < l then 1 else 0)"
  by (simp add: spec_submergedCount_def spec_submerged_def ex_sea_fields ex_sea_underwater)

theorem C5_damping_single_precision_witness:
  "OceanManager (Comp (ex_sea 0)) = Some (flat_sea 0) \<and>
   SimulatingPhysics (UpdatedPrimitive (ex_sea 0)) \<and>
   TestPoints (Comp (ex_sea 0)) \<noteq> [] \<and>
   spec_submergedCount (flat_sea 0) (ex_sea 0) = 1 \<and>
   LinearDamping (UpdatedPrimitive (TickComponent (ex_sea 0))) = 3 / 4 \<and>
   AngularDamping (UpdatedPrimitive (TickComponent (ex_sea 0))) = 3 / 2 \<and>
   LinearDamping (UpdatedPrimitive (TickComponent (TickComponent (ex_sea 0)))) = 3 / 4 \<and>
   LinearDamping (UpdatedPrimitive (TickComponent
     ((ex_sea 0)\<lparr>UpdatedPrimitive := ex_body\<lparr>LinearDamping := 1000\<rparr>\<rparr>))) = 3 / 4 \<and>
   spec_submergedCount (flat_sea (- 100)) (ex_sea (- 100)) = 0 \<and>
   is_float32 (baseLinearDamping (Comp (ex_sea (- 100)))) \<and>
   is_float32 (baseAngularDamping (Comp (ex_sea (- 100)))) \<and>
   LinearDamping (UpdatedPrimitive (TickComponent (ex_sea (- 100)))) = 1 / 4 \<and>
   AngularDamping (UpdatedPrimitive (TickComponent (ex_sea (- 100)))) = 1 / 2"
proof -
  note half = C5_damping_single_precision [OF ex_sea_fields(1-3), of 0]
  note dry = C5_damping_single_precision [OF ex_sea_fields(1-3), of "- 100"]
  have c0: "spec_submergedCount (flat_sea 0) (ex_sea 0) = 1"
    by (simp add: ex_sea_count)
  have c2: "spec_submergedCount (flat_sea (- 100)) (ex_sea (- 100)) = 0"
    by (simp add: ex_sea_count)
  have l0: "LinearDamping (UpdatedPrimitive (TickComponent (ex_sea 0))) = 3 / 4"
    using half [THEN conjunct1]
    by (simp add: c0 ex_sea_fields spec_totalPoints_def fdiv32_def fmul32_def fadd32_def
        fl32_half fl32_three_quarters)
  have a0: "AngularDamping (UpdatedPrimitive (TickComponent (ex_sea 0))) = 3 / 2"
    using half [THEN conjunct2, THEN conjunct1]
    by (simp add: c0 ex_sea_fields spec_totalPoints_def fdiv32_def fmul32_def fadd32_def
        fl32_one fl32_three_halves)
  have r0: "LinearDamping (UpdatedPrimitive (TickComponent (TickComponent (ex_sea 0)))) = 3 / 4"
    using half [THEN conjunct2, THEN conjunct2, THEN conjunct2, THEN conjunct2, THEN conjunct2,
        THEN conjunct1] l0
    by simp
  have o1: "Comp ((ex_sea 0)\<lparr>UpdatedPrimitive := ex_body\<lparr>LinearDamping := 1000\<rparr>\<rparr>) = Comp (ex_sea 0) \<and>
      SimulatingPhysics
        (UpdatedPrimitive ((ex_sea 0)\<lparr>UpdatedPrimitive := ex_body\<lparr>LinearDamping := 1000\<rparr>\<rparr>)) \<and>
      spec_submergedCount (flat_sea 0)
        ((ex_sea 0)\<lparr>UpdatedPrimitive := ex_body\<lparr>LinearDamping := 1000\<rparr>\<rparr>) =
      spec_submergedCount (flat_sea 0) (ex_sea 0)"
  proof -
    have "spec_underwater (flat_sea 0)
        ((ex_sea 0)\<lparr>UpdatedPrimitive := ex_body\<lparr>LinearDamping := 1000\<rparr>\<rparr>) =
        spec_underwater (flat_sea 0) (ex_sea 0)"
      by (rule ext)
        (simp add: spec_underwater_def spec_h_def spec_w_def ex_sea_def ex_world_def ex_body_def)
    then show ?thesis
      by (simp add: spec_submergedCount_def spec_submerged_def)
        (simp add: ex_sea_def ex_world_def ex_body_def)
  qed
  have o0: "LinearDamping (UpdatedPrimitive (TickComponent
      ((ex_sea 0)\<lparr>UpdatedPrimitive := ex_body\<lparr>LinearDamping := 1000\<rparr>\<rparr>))) = 3 / 4"
    using half [THEN conjunct2, THEN conjunct2, THEN conjunct2, THEN conjunct2, THEN conjunct1,
        rule_format, OF o1] l0
    by simp
  have fl: "is_float32 (baseLinearDamping (Comp (ex_sea (- 100))))"
    "is_float32 (baseAngularDamping (Comp (ex_sea (- 100))))"
    by (simp_all add: is_float32_def ex_sea_fields fl32_quarter fl32_half)
  have dl: "LinearDamping (UpdatedPrimitive (TickComponent (ex_sea (- 100)))) = 1 / 4"
    using dry [THEN conjunct2, THEN conjunct2, THEN conjunct1, rule_format, OF conjI [OF c2 fl(1)]]
    by (simp add: ex_sea_fields)
  have da: "AngularDamping (UpdatedPrimitive (TickComponent (ex_sea (- 100)))) = 1 / 2"
    using dry [THEN conjunct2, THEN conjunct2, THEN conjunct2, THEN conjunct1, rule_format,
        OF conjI [OF c2 fl(2)]]
    by (simp add: ex_sea_fields)
  show ?thesis
    using ex_sea_fields(1-3) [of 0] c0 l0 a0 r0 o0 c2 fl dl da by blast
qed

lemma ex_41_submergedCount: "spec_submergedCount (flat_sea 0) ex_41 = 41"
proof -
  have len: "length (TestPoints (Comp ex_41)) = 41"
    by (simp add: ex_41_def ex_world_def)
  have "spec_underwater (flat_sea 0) ex_41 i" if "i < 41" for i
    using that
    by (simp add: spec_underwater_def spec_h_def spec_w_def flat_sea_def ex_41_def ex_world_def
        ex_comp_def ex_body_def TransformPosition_def vadd_def)
  then have "filter (spec_underwater (flat_sea 0) ex_41) [0..<41] = [0..<41]"
    by (intro filter_True) simp
  then show ?thesis
    by (simp add: spec_submergedCount_def spec_submerged_def len)
qed

text \<open>
  Claim C5 fails as stated: with 41 test points, all submerged, \<open>baseLinearDamping = 0\<close>
  and \<open>fluidLinearDamping = 1\<close>, the code computes \<open>1 / 41\<close> in single precision, multiplies
  by 41 and obtains \<open>16777215 / 2 ^ 24\<close> (0.99999994), which is neither
  \<open>baseLinearDamping + fluidLinearDamping\<close> nor the value of the specification's
  \<open>baseLinearDamping + fluidLinearDamping * (submergedCount / totalPoints)\<close>, both 1.
\<close>

theorem C5_damping_counterexample:
  "OceanManager (Comp ex_41) = Some (flat_sea 0) \<and>
   SimulatingPhysics (UpdatedPrimitive ex_41) \<and>
   length (TestPoints (Comp ex_41)) = 41 \<and>
   spec_submergedCount (flat_sea 0) ex_41 = 41 \<and>
   spec_totalPoints ex_41 = 41 \<and>
   baseLinearDamping (Comp ex_41) = 0 \<and>
   FluidLinearDamping (Comp ex_41) = 1 \<and>
   LinearDamping (UpdatedPrimitive (TickComponent ex_41)) = 16777215 / 2 ^ 24 \<and>
   LinearDamping (UpdatedPrimitive (TickComponent ex_41)) \<noteq>
     baseLinearDamping (Comp ex_41) + FluidLinearDamping (Comp ex_41) \<and>
   LinearDamping (UpdatedPrimitive (TickComponent ex_41)) \<noteq>
     baseLinearDamping (Comp ex_41) + FluidLinearDamping (Comp ex_41) *
       (real (spec_submergedCount (flat_sea 0) ex_41) / spec_totalPoints ex_41)"
proof -
  have f: "OceanManager (Comp ex_41) = Some (flat_sea 0)"
    "SimulatingPhysics (UpdatedPrimitive ex_41)"
    "TestPoints (Comp ex_41) \<noteq> []"
    "length (TestPoints (Comp ex_41)) = 41"
    "baseLinearDamping (Comp ex_41) = 0"
    "FluidLinearDamping (Comp ex_41) = 1"
    by (simp_all add: ex_41_def ex_world_def ex_comp_def ex_body_def)
  have tick: "TickComponent ex_41 = tick_result (flat_sea 0) ex_41"
    using f(1-3) by (rule TickComponent_simulating)
  have tot: "spec_totalPoints ex_41 = 41"
    by (simp add: spec_totalPoints_def f)
  have q: "fdiv32 1 41 = 13094412 / 2 ^ 29"
    unfolding fdiv32_def by (rule fl32_one_41st)
  have m: "fmul32 (13094412 / 2 ^ 29) 41 = 16777215 / 2 ^ 24"
    unfolding fmul32_def by (rule fl32_41_41sts)
  have a: "fadd32 0 (16777215 / 2 ^ 24) = 16777215 / 2 ^ 24"
    unfolding fadd32_def by (simp only: add_0 fl32_below_one)
  have "LinearDamping (UpdatedPrimitive (TickComponent ex_41)) =
      fadd32 0 (fmul32 (fdiv32 1 41) 41)"
    by (simp add: tick tick_result_fields f tot ex_41_submergedCount)
  then have d: "LinearDamping (UpdatedPrimitive (TickComponent ex_41)) = 16777215 / 2 ^ 24"
    by (simp only: q m a)
  show ?thesis
    by (simp add: f tot d ex_41_submergedCount)
qed

section \<open>The velocity clamp\<close>

lemma vscale_ZeroVector: "vscale ZeroVector m = ZeroVector"
  by (simp add: vscale_def ZeroVector_def)

lemma velocity_unclamped:
  assumes "\<not> ClampMaxVelocity (Comp w)"
  shows "PhysicsLinearVelocity (UpdatedPrimitive (TickComponent w)) =
         PhysicsLinearVelocity (UpdatedPrimitive w)"
proof (cases "OceanManager (Comp w)")
  case None
  then show ?thesis by (simp add: TickComponent_unbound)
next
  case (Some h)
  show ?thesis
  proof (cases "SimulatingPhysics (UpdatedPrimitive w)")
    case False
    with Some show ?thesis
      by (simp add: TickComponent_kinematic SetWorldLocation_def)
  next
    case True
    show ?thesis
    proof (cases "TestPoints (Comp w) = []")
      case True
      with Some \<open>SimulatingPhysics (UpdatedPrimitive w)\<close> show ?thesis
        by (simp add: TickComponent_empty)
    next
      case False
      with Some True assms show ?thesis
        by (simp add: TickComponent_simulating tick_result_fields ClampVelocity_def)
    qed
  qed
qed

lemma submerged_nonempty: "0 < spec_submergedCount h w \<Longrightarrow> TestPoints (Comp w) \<noteq> []"
  by (auto simp: spec_submergedCount_def spec_submerged_def)

lemma velocity_clamped:
  assumes "OceanManager (Comp w) = Some h" "SimulatingPhysics (UpdatedPrimitive w)"
    "ClampMaxVelocity (Comp w)" "0 < spec_submergedCount h w"
    "Size (PhysicsLinearVelocity (UpdatedPrimitive w)) > MaxUnderwaterVelocity (Comp w)"
  shows "PhysicsLinearVelocity (UpdatedPrimitive (TickComponent w)) =
         vscale (GetSafeNormal (PhysicsLinearVelocity (UpdatedPrimitive w)))
           (MaxUnderwaterVelocity (Comp w))"
proof -
  have "TestPoints (Comp w) \<noteq> []"
    using assms(4) by (rule submerged_nonempty)
  with assms(1,2) have "TickComponent w = tick_result h w"
    by (rule TickComponent_simulating)
  then show ?thesis
    using assms(3-5) by (simp add: tick_result_fields ClampVelocity_def)
qed

text \<open>
  Claim C6, as the code has it. With \<open>ClampMaxVelocity\<close> off, no tick changes the body's
  linear velocity. With it on, a bound provider, a simulating body, at least one
  submerged point and a linear speed above \<open>MaxUnderwaterVelocity\<close>, the tick replaces the
  velocity by \<open>GetSafeNormal(velocity) * MaxUnderwaterVelocity\<close>: the zero vector when the
  squared speed is below the engine's tolerance \<open>SMALL_NUMBER\<close>, the velocity times
  \<open>MaxUnderwaterVelocity\<close> when the squared speed is exactly 1, and otherwise the velocity
  times the inverse square root of the squared speed, times \<open>MaxUnderwaterVelocity\<close>.
  Nothing is said of the length of the result.
\<close>

theorem C6_velocity_clamp:
  "(\<not> ClampMaxVelocity (Comp w) \<longrightarrow>
      PhysicsLinearVelocity (UpdatedPrimitive (TickComponent w)) =
        PhysicsLinearVelocity (UpdatedPrimitive w)) \<and>
   (OceanManager (Comp w) = Some h \<and> SimulatingPhysics (UpdatedPrimitive w)
      \<and> ClampMaxVelocity (Comp w) \<and> 0 < spec_submergedCount h w
      \<and> Size (PhysicsLinearVelocity (UpdatedPrimitive w)) > MaxUnderwaterVelocity (Comp w) \<longrightarrow>
      PhysicsLinearVelocity (UpdatedPrimitive (TickComponent w)) =
        vscale (GetSafeNormal (PhysicsLinearVelocity (UpdatedPrimitive w)))
          (MaxUnderwaterVelocity (Comp w)) \<and>
      (SizeSquared (PhysicsLinearVelocity (UpdatedPrimitive w)) < SMALL_NUMBER \<longrightarrow>
         PhysicsLinearVelocity (UpdatedPrimitive (TickComponent w)) = ZeroVector) \<and>
      (SizeSquared (PhysicsLinearVelocity (UpdatedPrimitive w)) = 1 \<longrightarrow>
         PhysicsLinearVelocity (UpdatedPrimitive (TickComponent w)) =
           vscale (PhysicsLinearVelocity (UpdatedPrimitive w)) (MaxUnderwaterVelocity (Comp w))) \<and>
      (SMALL_NUMBER \<le> SizeSquared (PhysicsLinearVelocity (UpdatedPrimitive w))
         \<and> SizeSquared (PhysicsLinearVelocity (UpdatedPrimitive w)) \<noteq> 1 \<longrightarrow>
         PhysicsLinearVelocity (UpdatedPrimitive (TickComponent w)) =
           vscale (vscale (PhysicsLinearVelocity (UpdatedPrimitive w))
                     (1 / sqrt (SizeSquared (PhysicsLinearVelocity (UpdatedPrimitive w)))))
             (MaxUnderwaterVelocity (Comp w))))"
proof (intro conjI impI)
  assume "\<not> ClampMaxVelocity (Comp w)"
  then show "PhysicsLinearVelocity (UpdatedPrimitive (TickComponent w)) =
      PhysicsLinearVelocity (UpdatedPrimitive w)"
    by (rule velocity_unclamped)
next
  assume a: "OceanManager (Comp w) = Some h \<and> SimulatingPhysics (UpdatedPrimitive w)
      \<and> ClampMaxVelocity (Comp w) \<and> 0 < spec_submergedCount h w
      \<and> Size (PhysicsLinearVelocity (UpdatedPrimitive w)) > MaxUnderwaterVelocity (Comp w)"
  have v: "PhysicsLinearVelocity (UpdatedPrimitive (TickComponent w)) =
      vscale (GetSafeNormal (PhysicsLinearVelocity (UpdatedPrimitive w)))
        (MaxUnderwaterVelocity (Comp w))"
    using velocity_clamped [of w h] a by simp
  show "PhysicsLinearVelocity (UpdatedPrimitive (TickComponent w)) =
      vscale (GetSafeNormal (PhysicsLinearVelocity (UpdatedPrimitive w)))
        (MaxUnderwaterVelocity (Comp w))"
    by (rule v)
  {
    assume "SizeSquared (PhysicsLinearVelocity (UpdatedPrimitive w)) < SMALL_NUMBER"
    then show "PhysicsLinearVelocity (UpdatedPrimitive (TickComponent w)) = ZeroVector"
      unfolding v by (simp add: GetSafeNormal_def SMALL_NUMBER_def vscale_ZeroVector)
  }
  {
    assume "SizeSquared (PhysicsLinearVelocity (UpdatedPrimitive w)) = 1"
    then show "PhysicsLinearVelocity (UpdatedPrimitive (TickComponent w)) =
        vscale (PhysicsLinearVelocity (UpdatedPrimitive w)) (MaxUnderwaterVelocity (Comp w))"
      unfolding v by (simp add: GetSafeNormal_def)
  }
  {
    assume "SMALL_NUMBER \<le> SizeSquared (PhysicsLinearVelocity (UpdatedPrimitive w))
        \<and> SizeSquared (PhysicsLinearVelocity (UpdatedPrimitive w)) \<noteq> 1"
    then show "PhysicsLinearVelocity (UpdatedPrimitive (TickComponent w)) =
        vscale (vscale (PhysicsLinearVelocity (UpdatedPrimitive w))
                  (1 / sqrt (SizeSquared (PhysicsLinearVelocity (UpdatedPrimitive w)))))
          (MaxUnderwaterVelocity (Comp w))"
      unfolding v by (simp add: GetSafeNormal_def Let_def)
  }
qed

lemma sqrt_25: "sqrt 25 = 5"
  by (rule real_sqrt_unique) simp_all

lemma sqrt_slow: "sqrt (1 / 400000000) = 1 / 20000"
  by (rule real_sqrt_unique) (simp_all add: power2_eq_square)

lemma ex_moving_fields:
  "OceanManager (Comp (ex_moving v m)) = Some (flat_sea 0)"
  "SimulatingPhysics (UpdatedPrimitive (ex_moving v m))"
  "ClampMaxVelocity (Comp (ex_moving v m))"
  "MaxUnderwaterVelocity (Comp (ex_moving v m)) = m"
  "PhysicsLinearVelocity (UpdatedPrimitive (ex_moving v m)) = v"
  by (simp_all add: ex_moving_def ex_world_def ex_comp_def ex_body_def)

lemma ex_moving_count: "spec_submergedCount (flat_sea 0) (ex_moving v m) = 1"
proof -
  have "spec_underwater (flat_sea 0) (ex_moving v m) = spec_underwater (flat_sea 0) ex_world"
    by (rule ext)
      (simp add: spec_underwater_def spec_h_def spec_w_def ex_moving_def ex_world_def ex_body_def)
  moreover have "TestPoints (Comp (ex_moving v m)) = TestPoints (Comp ex_world)"
    by (simp add: ex_moving_def ex_world_def)
  ultimately show ?thesis
    using ex_submerged by (simp add: spec_submergedCount_def spec_submerged_def)
qed

lemma ex_speeds:
  "SizeSquared \<lparr>X = 3, Y = 4, Z = 0\<rparr> = 25" "Size \<lparr>X = 3, Y = 4, Z = (0::real)\<rparr> = 5"
  "Size \<lparr>X = - 3, Y = - 4, Z = (0::real)\<rparr> = 5"
  "SizeSquared \<lparr>X = 1, Y = 0, Z = 0\<rparr> = 1" "Size \<lparr>X = 1, Y = 0, Z = (0::real)\<rparr> = 1"
  "SizeSquared \<lparr>X = 1 / 20000, Y = 0, Z = 0\<rparr> = 1 / 400000000"
  "Size \<lparr>X = 1 / 20000, Y = 0, Z = (0::real)\<rparr> = 1 / 20000"
  "Size ZeroVector = 0"
  by (simp_all add: Size_def SizeSquared_def sqrt_25 sqrt_slow ZeroVector_def)

theorem C6_velocity_clamp_witness:
  "\<not> ClampMaxVelocity (Comp ex_unclamped) \<and>
   PhysicsLinearVelocity (UpdatedPrimitive (TickComponent ex_unclamped)) = \<lparr>X = 3, Y = 4, Z = 0\<rparr> \<and>
   OceanManager (Comp (ex_moving \<lparr>X = 3, Y = 4, Z = 0\<rparr> 1)) = Some (flat_sea 0) \<and>
   SimulatingPhysics (UpdatedPrimitive (ex_moving \<lparr>X = 3, Y = 4, Z = 0\<rparr> 1)) \<and>
   ClampMaxVelocity (Comp (ex_moving \<lparr>X = 3, Y = 4, Z = 0\<rparr> 1)) \<and>
   0 < spec_submergedCount (flat_sea 0) (ex_moving \<lparr>X = 3, Y = 4, Z = 0\<rparr> 1) \<and>
   Size \<lparr>X = 3, Y = 4, Z = (0::real)\<rparr> > 1 \<and>
   SMALL_NUMBER \<le> SizeSquared \<lparr>X = 3, Y = 4, Z = 0\<rparr> \<and>
   SizeSquared \<lparr>X = 3, Y = 4, Z = 0\<rparr> \<noteq> 1 \<and>
   PhysicsLinearVelocity (UpdatedPrimitive (TickComponent (ex_moving \<lparr>X = 3, Y = 4, Z = 0\<rparr> 1))) =
     \<lparr>X = 3 / 5, Y = 4 / 5, Z = 0\<rparr> \<and>
   SizeSquared \<lparr>X = 1, Y = 0, Z = 0\<rparr> = 1 \<and>
   Size \<lparr>X = 1, Y = 0, Z = (0::real)\<rparr> > 1 / 2 \<and>
   PhysicsLinearVelocity
     (UpdatedPrimitive (TickComponent (ex_moving \<lparr>X = 1, Y = 0, Z = 0\<rparr> (1 / 2)))) =
     \<lparr>X = 1 / 2, Y = 0, Z = 0\<rparr> \<and>
   SizeSquared \<lparr>X = 1 / 20000, Y = 0, Z = 0\<rparr> < SMALL_NUMBER \<and>
   Size \<lparr>X = 1 / 20000, Y = 0, Z = (0::real)\<rparr> > 1 / 100000 \<and>
   PhysicsLinearVelocity
     (UpdatedPrimitive (TickComponent (ex_moving \<lparr>X = 1 / 20000, Y = 0, Z = 0\<rparr> (1 / 100000)))) =
     ZeroVector"
proof -
  have u: "\<not> ClampMaxVelocity (Comp ex_unclamped)"
    by (simp add: ex_unclamped_def ex_world_def)
  have uv: "PhysicsLinearVelocity (UpdatedPrimitive ex_unclamped) = \<lparr>X = 3, Y = 4, Z = 0\<rparr>"
    by (simp add: ex_unclamped_def ex_world_def ex_body_def)
  have d: "PhysicsLinearVelocity (UpdatedPrimitive (TickComponent ex_unclamped)) =
      \<lparr>X = 3, Y = 4, Z = 0\<rparr>"
    using C6_velocity_clamp [of ex_unclamped "flat_sea 0", THEN conjunct1, rule_format, OF u]
    by (simp add: uv)
  have hyp: "OceanManager (Comp (ex_moving v m)) = Some (flat_sea 0) \<and>
      SimulatingPhysics (UpdatedPrimitive (ex_moving v m)) \<and>
      ClampMaxVelocity (Comp (ex_moving v m)) \<and>
      0 < spec_submergedCount (flat_sea 0) (ex_moving v m) \<and>
      Size (PhysicsLinearVelocity (UpdatedPrimitive (ex_moving v m))) >
        MaxUnderwaterVelocity (Comp (ex_moving v m))" if "Size v > m" for v m
    using that by (simp add: ex_moving_fields ex_moving_count)
  have s1: "Size \<lparr>X = 3, Y = 4, Z = (0::real)\<rparr> > 1"
    and s2: "Size \<lparr>X = 1, Y = 0, Z = (0::real)\<rparr> > 1 / 2"
    and s3: "Size \<lparr>X = 1 / 20000, Y = 0, Z = (0::real)\<rparr> > 1 / 100000"
    by (simp_all add: ex_speeds)
  have q1: "SMALL_NUMBER \<le> SizeSquared \<lparr>X = 3, Y = 4, Z = 0\<rparr> \<and>
      SizeSquared \<lparr>X = 3, Y = 4, Z = 0\<rparr> \<noteq> 1"
    and q2: "SizeSquared \<lparr>X = 1, Y = 0, Z = 0\<rparr> = 1"
    and q3: "SizeSquared \<lparr>X = 1 / 20000, Y = 0, Z = 0\<rparr> < SMALL_NUMBER"
    by (simp_all add: ex_speeds SMALL_NUMBER_def)
  note t1 = C6_velocity_clamp [of "ex_moving \<lparr>X = 3, Y = 4, Z = 0\<rparr> 1" "flat_sea 0",
      THEN conjunct2, rule_format, OF hyp [OF s1]]
  note t2 = C6_velocity_clamp [of "ex_moving \<lparr>X = 1, Y = 0, Z = 0\<rparr> (1 / 2)" "flat_sea 0",
      THEN conjunct2, rule_format, OF hyp [OF s2]]
  note t3 = C6_velocity_clamp [of "ex_moving \<lparr>X = 1 / 20000, Y = 0, Z = 0\<rparr> (1 / 100000)"
      "flat_sea 0", THEN conjunct2, rule_format, OF hyp [OF s3]]
  have v1: "PhysicsLinearVelocity
      (UpdatedPrimitive (TickComponent (ex_moving \<lparr>X = 3, Y = 4, Z = 0\<rparr> 1))) =
      \<lparr>X = 3 / 5, Y = 4 / 5, Z = 0\<rparr>"
    using t1 [THEN conjunct2, THEN conjunct2, THEN conjunct2] q1
    by (simp add: ex_moving_fields ex_speeds sqrt_25 vscale_def)
  have v2: "PhysicsLinearVelocity
      (UpdatedPrimitive (TickComponent (ex_moving \<lparr>X = 1, Y = 0, Z = 0\<rparr> (1 / 2)))) =
      \<lparr>X = 1 / 2, Y = 0, Z = 0\<rparr>"
    using t2 [THEN conjunct2, THEN conjunct2, THEN conjunct1] q2
    by (simp add: ex_moving_fields vscale_def)
  have v3: "PhysicsLinearVelocity
      (UpdatedPrimitive (TickComponent (ex_moving \<lparr>X = 1 / 20000, Y = 0, Z = 0\<rparr> (1 / 100000)))) =
      ZeroVector"
    using t3 [THEN conjunct2, THEN conjunct1] q3
    by (simp add: ex_moving_fields)
  show ?thesis
    using u d hyp [OF s1] s1 s2 s3 q1 q2 q3 v1 v2 v3 by blast
qed

text \<open>
  Claim C6 fails as stated. With \<open>MaxUnderwaterVelocity = -5\<close>, clamping on, one point
  submerged and velocity \<open>(3, 4, 0)\<close>, the speed 5 exceeds the maximum, and the tick
  sets the velocity to \<open>(-3, -4, 0)\<close>: the speed is still 5, not \<open>-5\<close>, and the direction is
  reversed. With \<open>MaxUnderwaterVelocity = 1 / 100000\<close> and velocity \<open>(1 / 20000, 0, 0)\<close>
  the speed exceeds the maximum as well, the squared speed is below the tolerance of
  \<open>GetSafeNormal\<close>, and the tick sets the velocity to zero.
\<close>

theorem C6_velocity_clamp_counterexample:
  "OceanManager (Comp (ex_moving \<lparr>X = 3, Y = 4, Z = 0\<rparr> (- 5))) = Some (flat_sea 0) \<and>
   SimulatingPhysics (UpdatedPrimitive (ex_moving \<lparr>X = 3, Y = 4, Z = 0\<rparr> (- 5))) \<and>
   ClampMaxVelocity (Comp (ex_moving \<lparr>X = 3, Y = 4, Z = 0\<rparr> (- 5))) \<and>
   0 < spec_submergedCount (flat_sea 0) (ex_moving \<lparr>X = 3, Y = 4, Z = 0\<rparr> (- 5)) \<and>
   MaxUnderwaterVelocity (Comp (ex_moving \<lparr>X = 3, Y = 4, Z = 0\<rparr> (- 5))) = - 5 \<and>
   Size (PhysicsLinearVelocity (UpdatedPrimitive (ex_moving \<lparr>X = 3, Y = 4, Z = 0\<rparr> (- 5)))) = 5 \<and>
   PhysicsLinearVelocity (UpdatedPrimitive (TickComponent (ex_moving \<lparr>X = 3, Y = 4, Z = 0\<rparr> (- 5)))) =
     \<lparr>X = - 3, Y = - 4, Z = 0\<rparr> \<and>
   Size (PhysicsLinearVelocity
     (UpdatedPrimitive (TickComponent (ex_moving \<lparr>X = 3, Y = 4, Z = 0\<rparr> (- 5))))) = 5 \<and>
   0 < spec_submergedCount (flat_sea 0) (ex_moving \<lparr>X = 1 / 20000, Y = 0, Z = 0\<rparr> (1 / 100000)) \<and>
   MaxUnderwaterVelocity (Comp (ex_moving \<lparr>X = 1 / 20000, Y = 0, Z = 0\<rparr> (1 / 100000))) =
     1 / 100000 \<and>
   Size (PhysicsLinearVelocity
     (UpdatedPrimitive (ex_moving \<lparr>X = 1 / 20000, Y = 0, Z = 0\<rparr> (1 / 100000)))) = 1 / 20000 \<and>
   PhysicsLinearVelocity
     (UpdatedPrimitive (TickComponent (ex_moving \<lparr>X = 1 / 20000, Y = 0, Z = 0\<rparr> (1 / 100000)))) =
     ZeroVector \<and>
   Size (PhysicsLinearVelocity
     (UpdatedPrimitive (TickComponent (ex_moving \<lparr>X = 1 / 20000, Y = 0, Z = 0\<rparr> (1 / 100000))))) = 0"
proof -
  have n: "GetSafeNormal \<lparr>X = 3, Y = 4, Z = 0\<rparr> = \<lparr>X = 3 / 5, Y = 4 / 5, Z = 0\<rparr>"
    by (simp add: GetSafeNormal_def ex_speeds SMALL_NUMBER_def sqrt_25 vscale_def)
  have z: "GetSafeNormal \<lparr>X = 1 / 20000, Y = 0, Z = 0\<rparr> = ZeroVector"
    by (simp add: GetSafeNormal_def ex_speeds SMALL_NUMBER_def)
  have v1: "PhysicsLinearVelocity
      (UpdatedPrimitive (TickComponent (ex_moving \<lparr>X = 3, Y = 4, Z = 0\<rparr> (- 5)))) =
      \<lparr>X = - 3, Y = - 4, Z = 0\<rparr>"
    using velocity_clamped [of "ex_moving \<lparr>X = 3, Y = 4, Z = 0\<rparr> (- 5)" "flat_sea 0"]
    by (simp add: ex_moving_fields ex_moving_count ex_speeds n vscale_def)
  have v2: "PhysicsLinearVelocity
      (UpdatedPrimitive (TickComponent (ex_moving \<lparr>X = 1 / 20000, Y = 0, Z = 0\<rparr> (1 / 100000)))) =
      ZeroVector"
    using velocity_clamped [of "ex_moving \<lparr>X = 1 / 20000, Y = 0, Z = 0\<rparr> (1 / 100000)" "flat_sea 0"]
    by (simp add: ex_moving_fields ex_moving_count ex_speeds z vscale_ZeroVector)
  show ?thesis
    by (simp add: ex_moving_fields ex_moving_count v1 v2 ex_speeds)
qed

section \<open>The order of the test points\<close>

lemma xadd_commute: "xadd a b = xadd b a"
  by (cases a; cases b) simp_all

lemma xadd_assoc: "xadd (xadd a b) c = xadd a (xadd b c)"
  by (cases a; cases b; cases c) simp_all

lemma xvadd_right_commute: "xvadd (xvadd a b) c = xvadd (xvadd a c) b"
proof -
  have "xadd (xadd x y) z = xadd (xadd x z) y" for x y z
    by (simp add: xadd_assoc xadd_commute [of y z])
  then show ?thesis
    by (simp add: xvadd_def)
qed

lemma fold_xvadd_mset:
  assumes "mset xs = mset ys"
  shows "fold (\<lambda>x acc. xvadd acc (g x)) xs a = fold (\<lambda>x acc. xvadd acc (g x)) ys a"
proof -
  have "fold (\<lambda>x acc. xvadd acc (g x)) xs = fold (\<lambda>x acc. xvadd acc (g x)) ys"
    using assms by (intro fold_multiset_equiv) (simp_all add: fun_eq_iff xvadd_right_commute)
  then show ?thesis
    by simp
qed

lemma TotalForce_mset: "mset fs = mset gs \<Longrightarrow> TotalForce fs = TotalForce gs"
  unfolding TotalForce_def by (rule fold_xvadd_mset)

lemma TotalTorque_mset: "mset fs = mset gs \<Longrightarrow> TotalTorque c fs = TotalTorque c gs"
  unfolding TotalTorque_def by (rule fold_xvadd_mset)

lemma point_densities_nth:
  "point_densities w =
     map (\<lambda>i. (TestPoints (Comp w) ! i, spec_density w i)) [0..<length (TestPoints (Comp w))]"
  by (rule nth_equalityI) (simp_all add: point_densities_def)

lemma length_point_densities: "length (point_densities w) = length (TestPoints (Comp w))"
  by (simp add: point_densities_def)

lemma pair_underwater_nth:
  "pair_underwater h w (TestPoints (Comp w) ! i, spec_density w i) = spec_underwater h w i"
  by (simp add: pair_underwater_def spec_underwater_def spec_h_def spec_w_def Let_def)

lemma pair_force_nth:
  "pair_force h w (spec_totalPoints w) (TestPoints (Comp w) ! i, spec_density w i) =
     (spec_force h w i, spec_w w i)"
  by (simp add: pair_force_def spec_force_def spec_dampingForce_def spec_buoyantForceZ_def
      spec_depthFraction_def spec_h_def spec_w_def Let_def DepthMultiplier_def
      BuoyancyForceZ_def DampingForce_def mult.commute)

lemma added_forces_pairs:
  "map (\<lambda>i. (spec_force h w i, spec_w w i)) (spec_submerged h w) =
     map (pair_force h w (spec_totalPoints w)) (filter (pair_underwater h w) (point_densities w))"
  by (simp add: point_densities_nth spec_submerged_def filter_map comp_def
      pair_underwater_nth pair_force_nth)

lemma submergedCount_pairs:
  "spec_submergedCount h w = length (filter (pair_underwater h w) (point_densities w))"
  by (simp add: spec_submergedCount_def point_densities_nth spec_submerged_def filter_map
      comp_def pair_underwater_nth)

lemma pair_frame:
  "pair_underwater h (w\<lparr>Comp := (Comp w)\<lparr>TestPoints := ps, PointDensityOverride := ds\<rparr>\<rparr>) =
     pair_underwater h w"
  "pair_force h (w\<lparr>Comp := (Comp w)\<lparr>TestPoints := ps, PointDensityOverride := ds\<rparr>\<rparr>) =
     pair_force h w"
  by (rule ext, simp add: pair_underwater_def, (rule ext)+, simp add: pair_force_def)

lemma mset_added_forces:
  assumes "w' = w\<lparr>Comp := (Comp w)\<lparr>TestPoints := ps, PointDensityOverride := ds\<rparr>\<rparr>"
    "mset (point_densities w') = mset (point_densities w)"
  shows "mset (map (\<lambda>i. (spec_force h w' i, spec_w w' i)) (spec_submerged h w')) =
         mset (map (\<lambda>i. (spec_force h w i, spec_w w i)) (spec_submerged h w))"
    and "spec_submergedCount h w' = spec_submergedCount h w"
    and "spec_totalPoints w' = spec_totalPoints w"
proof -
  have len: "length (TestPoints (Comp w')) = length (TestPoints (Comp w))"
    using mset_eq_length [OF assms(2)] by (simp add: length_point_densities)
  then show tot: "spec_totalPoints w' = spec_totalPoints w"
    by (simp add: spec_totalPoints_def)
  have uw: "pair_underwater h w' = pair_underwater h w"
    unfolding assms(1) by (rule pair_frame)
  have pf: "pair_force h w' = pair_force h w"
    unfolding assms(1) by (rule pair_frame)
  have flt: "mset (filter (pair_underwater h w) (point_densities w')) =
      mset (filter (pair_underwater h w) (point_densities w))"
    using assms(2) by simp
  have "mset (map (pair_force h w (spec_totalPoints w))
          (filter (pair_underwater h w) (point_densities w'))) =
        mset (map (pair_force h w (spec_totalPoints w))
          (filter (pair_underwater h w) (point_densities w)))"
    using flt by (simp only: mset_map)
  then show "mset (map (\<lambda>i. (spec_force h w' i, spec_w w' i)) (spec_submerged h w')) =
      mset (map (\<lambda>i. (spec_force h w i, spec_w w i)) (spec_submerged h w))"
    by (simp only: added_forces_pairs uw pf tot)
  have "length (filter (pair_underwater h w) (point_densities w')) =
      length (filter (pair_underwater h w) (point_densities w))"
    using flt by (rule mset_eq_length)
  then show "spec_submergedCount h w' = spec_submergedCount h w"
    by (simp only: submergedCount_pairs uw)
qed

lemma point_densities_no_override:
  assumes "PointDensityOverride (Comp w) = []"
  shows "point_densities w = map (\<lambda>p. (p, MeshDensity (Comp w))) (TestPoints (Comp w))"
  by (rule nth_equalityI) (simp_all add: point_densities_def spec_density_def assms)

lemma mset_point_densities_no_override:
  assumes "w' = w\<lparr>Comp := (Comp w)\<lparr>TestPoints := ps, PointDensityOverride := ds\<rparr>\<rparr>"
    "PointDensityOverride (Comp w) = []" "ds = []" "mset ps = mset (TestPoints (Comp w))"
  shows "mset (point_densities w') = mset (point_densities w)"
proof -
  have "point_densities w' = map (\<lambda>p. (p, MeshDensity (Comp w))) ps"
    using point_densities_no_override [of w'] by (simp add: assms(1,3))
  moreover have "point_densities w =
      map (\<lambda>p. (p, MeshDensity (Comp w))) (TestPoints (Comp w))"
    using assms(2) by (rule point_densities_no_override)
  ultimately show ?thesis
    using assms(4) by simp
qed

text \<open>
  Claim C9, as the code has it. The density override is looked up by index, so a test
  point keeps its density only when the overrides are permuted with the points.
  Reordering \<open>TestPoints\<close> and \<open>PointDensityOverride\<close> so that the points with their
  densities (the override at the point's index, or the mesh density) are the same multiset
  leaves the tick's aggregate effect unchanged, for every configuration and body state:
  the same forces are added up to order, hence the same total force and the same total
  torque about any point, the same number of points is submerged, and the same dampings
  and velocity are set. With no overrides at all, every permutation of \<open>TestPoints\<close>
  is such a reordering.
\<close>

theorem C9_order_with_densities:
  assumes "w' = w\<lparr>Comp := (Comp w)\<lparr>TestPoints := ps, PointDensityOverride := ds\<rparr>\<rparr>"
    "mset (point_densities w') = mset (point_densities w)
     \<or> (PointDensityOverride (Comp w) = [] \<and> ds = [] \<and> mset ps = mset (TestPoints (Comp w)))"
  shows "mset (Forces (UpdatedPrimitive (TickComponent w'))) =
           mset (Forces (UpdatedPrimitive (TickComponent w))) \<and>
         TotalForce (Forces (UpdatedPrimitive (TickComponent w'))) =
           TotalForce (Forces (UpdatedPrimitive (TickComponent w))) \<and>
         TotalTorque c (Forces (UpdatedPrimitive (TickComponent w'))) =
           TotalTorque c (Forces (UpdatedPrimitive (TickComponent w))) \<and>
         spec_submergedCount h w' = spec_submergedCount h w \<and>
         LinearDamping (UpdatedPrimitive (TickComponent w')) =
           LinearDamping (UpdatedPrimitive (TickComponent w)) \<and>
         AngularDamping (UpdatedPrimitive (TickComponent w')) =
           AngularDamping (UpdatedPrimitive (TickComponent w)) \<and>
         PhysicsLinearVelocity (UpdatedPrimitive (TickComponent w')) =
           PhysicsLinearVelocity (UpdatedPrimitive (TickComponent w))"
proof -
  have body: "UpdatedPrimitive w' = UpdatedPrimitive w"
    and om: "OceanManager (Comp w') = OceanManager (Comp w)"
    and cfg: "baseLinearDamping (Comp w') = baseLinearDamping (Comp w)"
      "baseAngularDamping (Comp w') = baseAngularDamping (Comp w)"
      "FluidLinearDamping (Comp w') = FluidLinearDamping (Comp w)"
      "FluidAngularDamping (Comp w') = FluidAngularDamping (Comp w)"
      "ClampMaxVelocity (Comp w') = ClampMaxVelocity (Comp w)"
      "MaxUnderwaterVelocity (Comp w') = MaxUnderwaterVelocity (Comp w)"
    by (simp_all add: assms(1))
  have pd: "mset (point_densities w') = mset (point_densities w)"
    using assms(2) mset_point_densities_no_override [OF assms(1)] by blast
  have len: "length (TestPoints (Comp w')) = length (TestPoints (Comp w))"
    using mset_eq_length [OF pd] by (simp add: length_point_densities)
  have cnt: "spec_submergedCount g w' = spec_submergedCount g w" for g
    using assms(1) pd by (rule mset_added_forces)
  have tot: "spec_totalPoints w' = spec_totalPoints w"
    using assms(1) pd by (rule mset_added_forces)
  have main: "mset (Forces (UpdatedPrimitive (TickComponent w'))) =
        mset (Forces (UpdatedPrimitive (TickComponent w))) \<and>
      LinearDamping (UpdatedPrimitive (TickComponent w')) =
        LinearDamping (UpdatedPrimitive (TickComponent w)) \<and>
      AngularDamping (UpdatedPrimitive (TickComponent w')) =
        AngularDamping (UpdatedPrimitive (TickComponent w)) \<and>
      PhysicsLinearVelocity (UpdatedPrimitive (TickComponent w')) =
        PhysicsLinearVelocity (UpdatedPrimitive (TickComponent w))"
  proof (cases "OceanManager (Comp w)")
    case None
    then show ?thesis
      using om by (simp add: TickComponent_unbound body)
  next
    case (Some g)
    show ?thesis
    proof (cases "SimulatingPhysics (UpdatedPrimitive w)")
      case False
      with Some om show ?thesis
        by (simp add: TickComponent_kinematic body)
    next
      case True
      show ?thesis
      proof (cases "TestPoints (Comp w) = []")
        case True
        with len have "TestPoints (Comp w') = []"
          by simp
        with True Some om \<open>SimulatingPhysics (UpdatedPrimitive w)\<close> show ?thesis
          by (simp add: TickComponent_empty body)
      next
        case False
        with len have ne: "TestPoints (Comp w') \<noteq> []"
          by auto
        have t: "TickComponent w = tick_result g w"
          using Some True False by (rule TickComponent_simulating)
        have t': "TickComponent w' = tick_result g w'"
          using Some om True ne by (intro TickComponent_simulating) (simp_all add: body)
        have frc: "mset (map (\<lambda>i. (spec_force g w' i, spec_w w' i)) (spec_submerged g w')) =
            mset (map (\<lambda>i. (spec_force g w i, spec_w w i)) (spec_submerged g w))"
          using assms(1) pd by (rule mset_added_forces)
        show ?thesis
          using frc by (simp add: t t' tick_result_fields body cfg cnt tot ClampVelocity_def)
      qed
    qed
  qed
  show ?thesis
    using main TotalForce_mset [of "Forces (UpdatedPrimitive (TickComponent w'))"
        "Forces (UpdatedPrimitive (TickComponent w))"]
      TotalTorque_mset [of "Forces (UpdatedPrimitive (TickComponent w'))"
        "Forces (UpdatedPrimitive (TickComponent w))" c]
      cnt [of h]
    by blast
qed

lemma TotalForce_single: "TotalForce [(\<lparr>X = Fin a, Y = Fin b, Z = Fin d\<rparr>, p)] = \<lparr>X = Fin a, Y = Fin b, Z = Fin d\<rparr>"
  by (simp add: TotalForce_def xvadd_def xvzero_def)

lemma ex_world_tick_forces:
  "Forces (UpdatedPrimitive (TickComponent ex_world)) =
     [(\<lparr>X = Fin (- 90), Y = Fin (- 120), Z = Fin 5000\<rparr>, \<lparr>X = 0, Y = 0, Z = 0\<rparr>)]"
proof -
  have "TickComponent ex_world = tick_result (flat_sea 0) ex_world"
    by (rule TickComponent_simulating) (simp_all add: ex_world_def ex_comp_def ex_body_def)
  moreover have "Forces (UpdatedPrimitive ex_world) = []"
    by (simp add: ex_world_def ex_body_def)
  ultimately show ?thesis
    by (simp add: tick_result_fields ex_submerged ex_force ex_points)
qed

lemma ex_swapped_points:
  "spec_w ex_swapped 0 = \<lparr>X = 0, Y = 0, Z = 10\<rparr>" "spec_w ex_swapped (Suc 0) = \<lparr>X = 0, Y = 0, Z = 0\<rparr>"
  "spec_w ex_swapped_both 0 = \<lparr>X = 0, Y = 0, Z = 10\<rparr>"
  "spec_w ex_swapped_both (Suc 0) = \<lparr>X = 0, Y = 0, Z = 0\<rparr>"
  by (simp_all add: spec_w_def ex_swapped_def ex_swapped_both_def ex_world_def ex_comp_def
      ex_body_def TransformPosition_def vadd_def)

lemma ex_swapped_underwater:
  "\<not> spec_underwater (flat_sea 0) ex_swapped 0" "spec_underwater (flat_sea 0) ex_swapped (Suc 0)"
  by (simp_all add: spec_underwater_def spec_h_def ex_swapped_points flat_sea_def)
     (simp_all add: ex_swapped_def ex_world_def ex_comp_def)

lemma ex_swapped_submerged: "spec_submerged (flat_sea 0) ex_swapped = [Suc 0]"
proof -
  have "length (TestPoints (Comp ex_swapped)) = Suc (Suc 0)"
    by (simp add: ex_swapped_def ex_world_def ex_comp_def)
  then show ?thesis
    by (simp add: spec_submerged_def ex_swapped_underwater)
qed

lemma ex_swapped_depth: "spec_depthFraction (flat_sea 0) ex_swapped (Suc 0) = 1 / 2"
  by (simp add: spec_depthFraction_def spec_h_def ex_swapped_points flat_sea_def Clamp_def)
     (simp add: ex_swapped_def ex_world_def ex_comp_def)

lemma ex_swapped_force:
  "spec_force (flat_sea 0) ex_swapped (Suc 0) = \<lparr>X = Fin (- 90), Y = Fin (- 120), Z = Fin 2500\<rparr>"
  by (simp add: spec_force_def spec_dampingForce_def spec_buoyantForceZ_def ex_swapped_depth
      ex_swapped_points spec_density_def spec_totalPoints_def GetVelocityAtPoint_def
      vscale_def vmul_def vneg_def)
     (simp add: ex_swapped_def ex_world_def ex_comp_def ex_body_def)

lemma ex_swapped_tick_forces:
  "Forces (UpdatedPrimitive (TickComponent ex_swapped)) =
     [(\<lparr>X = Fin (- 90), Y = Fin (- 120), Z = Fin 2500\<rparr>, \<lparr>X = 0, Y = 0, Z = 0\<rparr>)]"
proof -
  have "TickComponent ex_swapped = tick_result (flat_sea 0) ex_swapped"
    by (rule TickComponent_simulating)
      (simp_all add: ex_swapped_def ex_world_def ex_comp_def ex_body_def)
  moreover have "Forces (UpdatedPrimitive ex_swapped) = []"
    by (simp add: ex_swapped_def ex_world_def ex_body_def)
  ultimately show ?thesis
    by (simp add: tick_result_fields ex_swapped_submerged ex_swapped_force ex_swapped_points)
qed

lemma ex_point_densities:
  "point_densities ex_world = [(\<lparr>X = 0, Y = 0, Z = 0\<rparr>, 300), (\<lparr>X = 0, Y = 0, Z = 10\<rparr>, 600)]"
  "point_densities ex_swapped_both =
     [(\<lparr>X = 0, Y = 0, Z = 10\<rparr>, 600), (\<lparr>X = 0, Y = 0, Z = 0\<rparr>, 300)]"
proof -
  have u: "[0..<Suc (Suc 0)] = [0, Suc 0]"
    by (simp add: upt_rec)
  show "point_densities ex_world =
      [(\<lparr>X = 0, Y = 0, Z = 0\<rparr>, 300), (\<lparr>X = 0, Y = 0, Z = 10\<rparr>, 600)]"
    by (simp add: point_densities_def spec_density_def ex_world_def ex_comp_def u)
  show "point_densities ex_swapped_both =
      [(\<lparr>X = 0, Y = 0, Z = 10\<rparr>, 600), (\<lparr>X = 0, Y = 0, Z = 0\<rparr>, 300)]"
    by (simp add: point_densities_def spec_density_def ex_swapped_both_def ex_world_def
        ex_comp_def u)
qed

theorem C9_order_with_densities_witness:
  "ex_swapped_both =
     ex_world\<lparr>Comp := (Comp ex_world)\<lparr>TestPoints := [\<lparr>X = 0, Y = 0, Z = 10\<rparr>, \<lparr>X = 0, Y = 0, Z = 0\<rparr>],
                                      PointDensityOverride := [600, 300]\<rparr>\<rparr> \<and>
   mset (point_densities ex_swapped_both) = mset (point_densities ex_world) \<and>
   TestPoints (Comp ex_swapped_both) \<noteq> TestPoints (Comp ex_world) \<and>
   TotalForce (Forces (UpdatedPrimitive (TickComponent ex_swapped_both))) =
     \<lparr>X = Fin (- 90), Y = Fin (- 120), Z = Fin 5000\<rparr> \<and>
   spec_submergedCount (flat_sea 0) ex_swapped_both = 1 \<and>
   LinearDamping (UpdatedPrimitive (TickComponent ex_swapped_both)) =
     LinearDamping (UpdatedPrimitive (TickComponent ex_world)) \<and>
   PointDensityOverride (Comp (ex_world\<lparr>Comp := ex_comp\<lparr>PointDensityOverride := []\<rparr>\<rparr>)) = [] \<and>
   mset [\<lparr>X = 0, Y = 0, Z = 10\<rparr>, \<lparr>X = 0, Y = 0, Z = (0::real)\<rparr>] =
     mset (TestPoints (Comp (ex_world\<lparr>Comp := ex_comp\<lparr>PointDensityOverride := []\<rparr>\<rparr>))) \<and>
   TotalForce (Forces (UpdatedPrimitive (TickComponent
     (ex_world\<lparr>Comp := ex_comp\<lparr>TestPoints := [\<lparr>X = 0, Y = 0, Z = 10\<rparr>, \<lparr>X = 0, Y = 0, Z = 0\<rparr>],
                                 PointDensityOverride := []\<rparr>\<rparr>)))) =
   TotalForce (Forces (UpdatedPrimitive (TickComponent
     (ex_world\<lparr>Comp := ex_comp\<lparr>PointDensityOverride := []\<rparr>\<rparr>))))"
proof -
  have a: "ex_swapped_both =
      ex_world\<lparr>Comp := (Comp ex_world)\<lparr>TestPoints := [\<lparr>X = 0, Y = 0, Z = 10\<rparr>, \<lparr>X = 0, Y = 0, Z = 0\<rparr>],
                                       PointDensityOverride := [600, 300]\<rparr>\<rparr>"
    by (simp add: ex_swapped_both_def ex_world_def)
  have b: "mset (point_densities ex_swapped_both) = mset (point_densities ex_world)"
    by (simp add: ex_point_densities)
  have d: "TestPoints (Comp ex_swapped_both) \<noteq> TestPoints (Comp ex_world)"
    by (simp add: ex_swapped_both_def ex_world_def ex_comp_def)
  note t = C9_order_with_densities [OF a disjI1 [OF b], of "\<lparr>X = 0, Y = 0, Z = 0\<rparr>" "flat_sea 0"]
  have f: "TotalForce (Forces (UpdatedPrimitive (TickComponent ex_swapped_both))) =
      \<lparr>X = Fin (- 90), Y = Fin (- 120), Z = Fin 5000\<rparr>"
    using t [THEN conjunct2, THEN conjunct1]
    by (simp add: ex_world_tick_forces TotalForce_single)
  have n: "spec_submergedCount (flat_sea 0) ex_swapped_both = 1"
    using t [THEN conjunct2, THEN conjunct2, THEN conjunct2, THEN conjunct1]
    by (simp add: spec_submergedCount_def ex_submerged)
  have l: "LinearDamping (UpdatedPrimitive (TickComponent ex_swapped_both)) =
      LinearDamping (UpdatedPrimitive (TickComponent ex_world))"
    using t by blast
  have a': "ex_world\<lparr>Comp := ex_comp\<lparr>TestPoints := [\<lparr>X = 0, Y = 0, Z = 10\<rparr>, \<lparr>X = 0, Y = 0, Z = 0\<rparr>],
                                  PointDensityOverride := []\<rparr>\<rparr> =
      (ex_world\<lparr>Comp := ex_comp\<lparr>PointDensityOverride := []\<rparr>\<rparr>)
        \<lparr>Comp := (Comp (ex_world\<lparr>Comp := ex_comp\<lparr>PointDensityOverride := []\<rparr>\<rparr>))
           \<lparr>TestPoints := [\<lparr>X = 0, Y = 0, Z = 10\<rparr>, \<lparr>X = 0, Y = 0, Z = 0\<rparr>],
            PointDensityOverride := []\<rparr>\<rparr>"
    by (simp add: ex_world_def ex_comp_def)
  have e: "PointDensityOverride (Comp (ex_world\<lparr>Comp := ex_comp\<lparr>PointDensityOverride := []\<rparr>\<rparr>)) = []"
    by simp
  have m: "mset [\<lparr>X = 0, Y = 0, Z = 10\<rparr>, \<lparr>X = 0, Y = 0, Z = (0::real)\<rparr>] =
      mset (TestPoints (Comp (ex_world\<lparr>Comp := ex_comp\<lparr>PointDensityOverride := []\<rparr>\<rparr>)))"
    by (simp add: ex_comp_def)
  have h: "PointDensityOverride (Comp (ex_world\<lparr>Comp := ex_comp\<lparr>PointDensityOverride := []\<rparr>\<rparr>)) = [] \<and>
      ([]::real list) = [] \<and>
      mset [\<lparr>X = 0, Y = 0, Z = 10\<rparr>, \<lparr>X = 0, Y = 0, Z = (0::real)\<rparr>] =
      mset (TestPoints (Comp (ex_world\<lparr>Comp := ex_comp\<lparr>PointDensityOverride := []\<rparr>\<rparr>)))"
    using e m by simp
  note u = C9_order_with_densities [OF a' disjI2 [OF h], of "\<lparr>X = 0, Y = 0, Z = 0\<rparr>" "flat_sea 0"]
  show ?thesis
    using a b d f n l e m u [THEN conjunct2, THEN conjunct1] by blast
qed

text \<open>
  Claim C9 fails as stated: with a density override of 300 at index 0 only, the two test
  points of the example world in the order (wet, dry) get the total force
  \<open>(-90, -120, 5000)\<close>, and in the order (dry, wet) the total force \<open>(-90, -120, 2500)\<close>,
  the wet point having moved from the overridden density 300 to the mesh density 600.
\<close>

theorem C9_order_counterexample:
  "ex_swapped =
     ex_world\<lparr>Comp := (Comp ex_world)\<lparr>TestPoints := [\<lparr>X = 0, Y = 0, Z = 10\<rparr>, \<lparr>X = 0, Y = 0, Z = 0\<rparr>]\<rparr>\<rparr> \<and>
   mset (TestPoints (Comp ex_swapped)) = mset (TestPoints (Comp ex_world)) \<and>
   TotalForce (Forces (UpdatedPrimitive (TickComponent ex_world))) =
     \<lparr>X = Fin (- 90), Y = Fin (- 120), Z = Fin 5000\<rparr> \<and>
   TotalForce (Forces (UpdatedPrimitive (TickComponent ex_swapped))) =
     \<lparr>X = Fin (- 90), Y = Fin (- 120), Z = Fin 2500\<rparr> \<and>
   TotalForce (Forces (UpdatedPrimitive (TickComponent ex_swapped))) \<noteq>
     TotalForce (Forces (UpdatedPrimitive (TickComponent ex_world)))"
  by (simp add: ex_world_tick_forces ex_swapped_tick_forces TotalForce_single)
     (simp add: ex_swapped_def ex_world_def ex_comp_def)

end
